theory Spec2Isabelle
  imports Complex_Main "HOL-Library.Multiset" "HOL-Library.Product_Lexorder"
begin

section \<open>Python values and exceptions\<close>

text \<open>
  Exceptions are values. Only subclasses of Python's \<open>Exception\<close> are modelled: every
  handler of the program is \<open>except Exception\<close>, the handlers contain no \<open>await\<close>,
  and the errors of psycopg2, voyageai and the builtins all derive from \<open>Exception\<close>.
  \<open>msg\<close> is what \<open>str(e)\<close> returns, \<open>cause\<close> is \<open>__cause__\<close> (set by
  \<open>raise ... from e\<close>).
\<close>

datatype exn_class =
    RuntimeError | ValueError | KeyError | TypeError | AttributeError | IndexError
  | PoolError | HTTPException nat | OtherError string

datatype exn = Exn (cls: exn_class) (msg: string) (cause: "exn option")

definition startswith :: "string \<Rightarrow> string \<Rightarrow> bool" where
  "startswith s p = (take (length p) s = p)"

section \<open>config.py\<close>

text \<open>
  The module attributes that config.py assigns. \<open>os.getenv\<close> without a default gives
  \<open>None\<close> for an unset variable, so those attributes are optional strings.
\<close>

record config =
  MCP_SERVER_NAME :: string
  MCP_AUTH_TOKEN :: "string option"
  VOYAGE_API_KEY :: "string option"
  VOYAGE_MODEL :: string
  EMBEDDING_DIMENSION :: int
  DB_MIN_CONNECTIONS :: int
  DB_MAX_CONNECTIONS :: int

text \<open>
  \<open>config.SERVER_DOMAIN\<close> is read by http_server.py and fake_oauth_server.py, but config.py
  assigns no such name (and defines no module \<open>__getattr__\<close>), so the attribute lookup raises.
\<close>

definition SERVER_DOMAIN :: "config \<Rightarrow> exn + string" where
  "SERVER_DOMAIN cfg =
     Inl (Exn AttributeError (''module 'config' has no attribute 'SERVER_DOMAIN'' @ [CHR 0x27]) None)"

section \<open>http_server.py: the bearer gate\<close>

text \<open>
  A request as the gate sees it: its headers, looked up by name. (Starlette's lookup ignores
  the case of the header name; the map is keyed by the name the code asks for.)
\<close>

record request =
  headers :: "string \<rightharpoonup> string"

record response =
  status_code :: nat
  content :: string
  resp_headers :: "(string \<times> string) list"

text \<open>\<open>not auth_header\<close> holds for \<open>None\<close> and for the empty string.\<close>

definition verify_token :: "config \<Rightarrow> request \<Rightarrow> bool" where
  "verify_token cfg req =
     (case headers req ''Authorization'' of
        None \<Rightarrow> False
      | Some auth_header \<Rightarrow>
          if auth_header = [] \<or> \<not> startswith auth_header ''Bearer '' then False
          else (let token = drop 7 auth_header in Some token = MCP_AUTH_TOKEN cfg))"

text \<open>
  What \<open>handle_mcp\<close> does with a request: answers it itself, or hands it to
  \<open>session_manager.handle_request\<close> (the tool dispatch).
\<close>

datatype mcp_outcome = Respond response | Forward request

definition handle_mcp :: "config \<Rightarrow> request \<Rightarrow> exn + mcp_outcome" where
  "handle_mcp cfg req =
     (if \<not> verify_token cfg req then
        (case SERVER_DOMAIN cfg of
           Inl e \<Rightarrow> Inl e
         | Inr domain \<Rightarrow>
             Inr (Respond \<lparr>status_code = 401, content = ''Unauthorized'',
               resp_headers = [(''WWW-Authenticate'',
                 ''Bearer realm='' @ [CHR 0x22] @ ''mcp'' @ [CHR 0x22] @
                 '', resource_metadata_url='' @ [CHR 0x22] @ ''https://'' @ domain @
                 ''/.well-known/oauth-protected-resource'' @ [CHR 0x22])]\<rparr>))
      else Inr (Forward req))"

section \<open>fake_oauth_server.py: token exchange\<close>

datatype json = JNull | JStr string | JInt int

text \<open>\<open>FAKE_TOKEN = config.MCP_AUTH_TOKEN\<close>, read once when the module is loaded.\<close>

definition FAKE_TOKEN :: "config \<Rightarrow> string option" where
  "FAKE_TOKEN cfg = MCP_AUTH_TOKEN cfg"

text \<open>
  The body of a POST, by what Starlette's \<open>request.form()\<close> makes of it: the fields of
  a url-encoded or multipart form; for a multipart body that cannot be parsed, an
  \<open>HTTPException\<close> with status 400 (the framework's answer to the client); no fields for
  any other content type.
\<close>

datatype post_body =
    UrlEncoded "string \<rightharpoonup> string"
  | Multipart "string \<rightharpoonup> string"
  | BadMultipart string
  | OtherBody

fun request_form :: "post_body \<Rightarrow> exn + (string \<rightharpoonup> string)" where
  "request_form (UrlEncoded form) = Inr form"
| "request_form (Multipart form) = Inr form"
| "request_form (BadMultipart detail) = Inl (Exn (HTTPException 400) detail None)"
| "request_form OtherBody = Inr Map.empty"

text \<open>
  \<open>form = await request.form()\<close> comes first; the handler then reads the form only to
  log its \<open>code\<close> field. The body of the \<open>JSONResponse\<close> is the dictionary below, in
  the order it is written; a \<open>None\<close> token is serialised as \<open>null\<close>.
\<close>

definition token_exchange :: "config \<Rightarrow> post_body \<Rightarrow> exn + (string \<times> json) list" where
  "token_exchange cfg body =
     (case request_form body of
        Inl e \<Rightarrow> Inl e
      | Inr form \<Rightarrow>
          Inr [(''access_token'', (case FAKE_TOKEN cfg of None \<Rightarrow> JNull | Some t \<Rightarrow> JStr t)),
               (''token_type'', JStr ''Bearer''),
               (''expires_in'', JInt 315360000),
               (''scope'', JStr ''user'')])"

section \<open>Values that cross the program's boundaries\<close>

text \<open>
  A Python float: only its comparison with zero is computed here; its formatting is the
  runtime's and is taken as a parameter (\<open>env\<close> below).
\<close>

datatype pyfloat = Finite rat | PosInf | NegInf | NaN

fun float_le_zero :: "pyfloat \<Rightarrow> bool" where
  "float_le_zero (Finite r) = (r \<le> 0)"
| "float_le_zero NegInf = True"
| "float_le_zero PosInf = False"
| "float_le_zero NaN = False"

text \<open>
  The values a tool argument can have (decoded JSON). A list or a dictionary is carried
  by its \<open>str()\<close> rendering, the only thing the program does with one.
\<close>

datatype pyval =
    PyNone | PyBool bool | PyInt int | PyFloat pyfloat | PyStr string
  | PyList string | PyDict string

fun type_name :: "pyval \<Rightarrow> string" where
  "type_name PyNone = ''NoneType''"
| "type_name (PyBool b) = ''bool''"
| "type_name (PyInt i) = ''int''"
| "type_name (PyFloat f) = ''float''"
| "type_name (PyStr s) = ''str''"
| "type_name (PyList s) = ''list''"
| "type_name (PyDict s) = ''dict''"

function str_nat :: "nat \<Rightarrow> string" where
  "str_nat n =
     (if n < 10 then [''0123456789'' ! n]
      else str_nat (n div 10) @ [''0123456789'' ! (n mod 10)])"
  by pat_completeness auto
termination
  by (relation "measure id") auto

definition str_int :: "int \<Rightarrow> string" where
  "str_int i = (if i < 0 then ''-'' @ str_nat (nat (- i)) else str_nat (nat i))"

type_synonym date = "nat \<times> nat \<times> nat"
type_synonym time_of_day = "nat \<times> nat \<times> nat \<times> nat"

text \<open>
  A timestamp is a date (year, month, day) and a time of day (hour, minute, second,
  microsecond); the lexicographic order of the tuple is the order of time.
\<close>

type_synonym timestamp = "date \<times> time_of_day"
type_synonym vector = "pyfloat list"
type_synonym conn = nat

record neron_note =
  note_id :: int
  note_timestamp :: timestamp
  note_text :: string
  note_embedding :: vector

type_synonym note_row = "int \<times> timestamp \<times> string"
type_synonym search_row = "int \<times> string \<times> timestamp \<times> pyfloat"

section \<open>The world outside db\_connector.py\<close>

text \<open>The statements the connector sends, by their SQL text in the source.\<close>

datatype query =
    NotesByDay date
  | AllNotes
  | Nearest vector pyval

text \<open>
  Every call that leaves the process is logged, in order: the pool's \<open>getconn\<close>,
  \<open>putconn\<close> and \<open>closeall\<close>, the round trips on a connection (the \<open>SELECT 1\<close> probe with
  its outcome, a query), and the embedding request.
\<close>

datatype event =
    GetConn
  | PutConn conn bool
  | CloseAll
  | Probe conn bool
  | Execute conn query
  | Embed pyval

text \<open>
  What the program cannot decide is a parameter: the functions of the Python runtime it
  calls, and the outcome of each external call, given by the number of external calls
  made before it (so that the same call can succeed at one time and fail at another).
  \<open>None\<close> from \<open>strptime_ymd\<close> is the \<open>ValueError\<close> of
  \<open>datetime.strptime(s, "%Y-%m-%d")\<close>; \<open>percent_1f x\<close> is \<open>f"{x*100:.1f}"\<close>;
  \<open>nearest_rows\<close> is the answer of the store to the nearest-neighbour statement;
  \<open>transaction_status\<close> and \<open>rollback_result\<close> are what \<open>putconn\<close> finds when it
  looks at a connection (\<open>conn.info.transaction_status\<close>, \<open>conn.rollback()\<close>).
\<close>

datatype txn_status = StatusIdle | StatusInTransaction | StatusUnknown

record env =
  strptime_ymd :: "string \<Rightarrow> date option"
  strftime :: "timestamp \<Rightarrow> string \<Rightarrow> string"
  float_str :: "pyfloat \<Rightarrow> string"
  percent_1f :: "pyfloat \<Rightarrow> string"
  connect_result :: "nat \<Rightarrow> exn option"
  probe_result :: "nat \<Rightarrow> conn \<Rightarrow> exn option"
  execute_result :: "nat \<Rightarrow> conn \<Rightarrow> query \<Rightarrow> exn option"
  transaction_status :: "nat \<Rightarrow> conn \<Rightarrow> txn_status"
  rollback_result :: "nat \<Rightarrow> conn \<Rightarrow> exn option"
  embed_result :: "nat \<Rightarrow> pyval \<Rightarrow> exn + vector list"
  nearest_rows :: "neron_note list \<Rightarrow> vector \<Rightarrow> pyval \<Rightarrow> search_row list"

text \<open>
  psycopg2's \<open>ThreadedConnectionPool\<close>, as far as the connector uses it: the idle
  connections (\<open>_pool\<close>), the checked-out ones (\<open>_used\<close>), the \<open>closed\<close> flag and
  the two bounds.
\<close>

record pg_pool =
  minconn :: int
  maxconn :: int
  idle :: "conn list"
  used :: "conn list"
  closed :: bool

text \<open>
  The globals of db\_connector.py (\<open>connection_pool\<close>, \<open>voyage_client\<close>: \<open>None\<close> until
  \<open>initialize_pool\<close> sets them), and the world they act on: the connections that have been
  closed, the next connection the pool would open, the table \<open>neron\<close>, and the log.
\<close>

record world =
  connection_pool :: "pg_pool option"
  voyage_client :: bool
  closed_conns :: "conn list"
  fresh :: conn
  neron :: "neron_note list"
  trace :: "event list"

definition log_event :: "event \<Rightarrow> world \<Rightarrow> world" where
  "log_event ev w = w\<lparr>trace := trace w @ [ev]\<rparr>"

definition now :: "world \<Rightarrow> nat" where
  "now w = length (trace w)"

subsection \<open>The pool of psycopg2\<close>

text \<open>
  \<open>getconn\<close>: refuses on a closed pool; hands out the last idle connection; otherwise
  opens a new one unless \<open>maxconn\<close> are checked out (opening can fail).
\<close>

definition pool_getconn :: "env \<Rightarrow> pg_pool \<Rightarrow> world \<Rightarrow> (exn + conn) \<times> world" where
  "pool_getconn env p w =
     (let w1 = log_event GetConn w in
      if closed p then (Inl (Exn PoolError ''connection pool is closed'' None), w1)
      else if idle p \<noteq> [] then
        (Inr (last (idle p)),
         w1\<lparr>connection_pool :=
              Some (p\<lparr>idle := butlast (idle p), used := used p @ [last (idle p)]\<rparr>)\<rparr>)
      else if int (length (used p)) = maxconn p then
        (Inl (Exn PoolError ''connection pool exhausted'' None), w1)
      else (case connect_result env (now w) of
              Some e \<Rightarrow> (Inl e, w1)
            | None \<Rightarrow>
                (Inr (fresh w),
                 w1\<lparr>fresh := Suc (fresh w),
                    connection_pool := Some (p\<lparr>used := used p @ [fresh w]\<rparr>)\<rparr>)))"

text \<open>
  \<open>putconn\<close>: refuses on a closed pool and for a connection that is not checked out.
  With \<open>close\<close> set, or when \<open>minconn\<close> connections are idle already, the connection
  is closed. Otherwise a connection that is closed already is dropped; one whose
  transaction status is unknown (the server connection is lost) is closed; one that is in
  a transaction or in error is rolled back first, and if \<open>conn.rollback()\<close> raises,
  \<open>putconn\<close> raises with it and the connection stays in \<open>_used\<close>; after the rollback,
  or when it was idle, it is kept idle. In every case but the failed rollback the
  connection leaves \<open>_used\<close>.
\<close>

definition pool_putconn ::
  "env \<Rightarrow> pg_pool \<Rightarrow> conn \<Rightarrow> bool \<Rightarrow> world \<Rightarrow> exn option \<times> world" where
  "pool_putconn env p c close w =
     (let w1 = log_event (PutConn c close) w in
      if closed p then (Some (Exn PoolError ''connection pool is closed'' None), w1)
      else if c \<notin> set (used p) then
        (Some (Exn PoolError ''trying to put unkeyed connection'' None), w1)
      else if int (length (idle p)) < minconn p \<and> \<not> close then
        (if c \<in> set (closed_conns w) then
           (None, w1\<lparr>connection_pool := Some (p\<lparr>used := remove1 c (used p)\<rparr>)\<rparr>)
         else
           (case transaction_status env (now w) c of
              StatusUnknown \<Rightarrow>
                (None, w1\<lparr>closed_conns := c # closed_conns w,
                          connection_pool := Some (p\<lparr>used := remove1 c (used p)\<rparr>)\<rparr>)
            | StatusIdle \<Rightarrow>
                (None, w1\<lparr>connection_pool :=
                            Some (p\<lparr>idle := idle p @ [c], used := remove1 c (used p)\<rparr>)\<rparr>)
            | StatusInTransaction \<Rightarrow>
                (case rollback_result env (now w) c of
                   Some e \<Rightarrow> (Some e, w1)
                 | None \<Rightarrow>
                     (None, w1\<lparr>connection_pool :=
                                 Some (p\<lparr>idle := idle p @ [c],
                                        used := remove1 c (used p)\<rparr>)\<rparr>))))
      else
        (None, w1\<lparr>closed_conns := c # closed_conns w,
                  connection_pool := Some (p\<lparr>used := remove1 c (used p)\<rparr>)\<rparr>))"

text \<open>
  \<open>closeall\<close>: refuses on a closed pool; otherwise closes every connection, idle and
  checked out, and marks the pool closed.
\<close>

definition pool_closeall :: "pg_pool \<Rightarrow> world \<Rightarrow> exn option \<times> world" where
  "pool_closeall p w =
     (let w1 = log_event CloseAll w in
      if closed p then (Some (Exn PoolError ''connection pool is closed'' None), w1)
      else (None, w1\<lparr>closed_conns := idle p @ used p @ closed_conns w,
                     connection_pool := Some (p\<lparr>closed := True\<rparr>)\<rparr>))"

subsection \<open>Round trips on a connection\<close>

text \<open>
  A closed connection refuses every statement; on an open one the outcome is the
  environment's. The probe is \<open>cursor(); execute("SELECT 1;"); fetchone(); close()\<close>.
\<close>

definition already_closed :: exn where
  "already_closed = Exn (OtherError ''InterfaceError'') ''connection already closed'' None"

definition probe :: "env \<Rightarrow> conn \<Rightarrow> world \<Rightarrow> exn option \<times> world" where
  "probe env c w =
     (let r = (if c \<in> set (closed_conns w) then Some already_closed
               else probe_result env (now w) c)
      in (r, log_event (Probe c (r = None)) w))"

definition execute :: "env \<Rightarrow> conn \<Rightarrow> query \<Rightarrow> world \<Rightarrow> exn option \<times> world" where
  "execute env c q w =
     (let r = (if c \<in> set (closed_conns w) then Some already_closed
               else execute_result env (now w) c q)
      in (r, log_event (Execute c q) w))"

text \<open>
  The two plain statements, on the table:
  \<open>SELECT id, timestamp, text FROM neron WHERE DATE(timestamp) = %s ORDER BY timestamp ASC\<close> and
  \<open>SELECT id, timestamp, text FROM neron ORDER BY timestamp DESC\<close>.
  (SQL leaves the order of rows with equal timestamps open; in both answers the model
  keeps them in the table's order.)
\<close>

definition row_of :: "neron_note \<Rightarrow> note_row" where
  "row_of n = (note_id n, note_timestamp n, note_text n)"

definition row_timestamp :: "note_row \<Rightarrow> timestamp" where
  "row_timestamp r = fst (snd r)"

definition select_by_day :: "neron_note list \<Rightarrow> date \<Rightarrow> note_row list" where
  "select_by_day tbl d =
     map row_of (sort_key note_timestamp (filter (\<lambda>n. fst (note_timestamp n) = d) tbl))"

definition select_all_desc :: "neron_note list \<Rightarrow> note_row list" where
  "select_all_desc tbl = map row_of (rev (sort_key note_timestamp (rev tbl)))"

section \<open>db\_connector.py\<close>

definition pool_not_initialized :: exn where
  "pool_not_initialized =
     Exn RuntimeError ''Connection pool not initialized. Call initialize_pool() first.'' None"

definition get_connection :: "env \<Rightarrow> world \<Rightarrow> (exn + conn) \<times> world" where
  "get_connection env w =
     (case connection_pool w of
        None \<Rightarrow> (Inl pool_not_initialized, w)
      | Some p \<Rightarrow> pool_getconn env p w)"

definition return_connection :: "env \<Rightarrow> conn \<Rightarrow> bool \<Rightarrow> world \<Rightarrow> exn option \<times> world" where
  "return_connection env c close w =
     (case connection_pool w of
        None \<Rightarrow> (None, w)
      | Some p \<Rightarrow> pool_putconn env p c close w)"

text \<open>
  One turn of the loop of \<open>get_valid_connection\<close>, up to the end of the handler's cleanup:
  \<open>Inr\<close> the validated connection, or \<open>Inl\<close> the exception the handler caught. When
  \<open>get_connection\<close> raised, \<open>conn\<close> is still \<open>None\<close> and nothing is closed; when the
  probe raised, the connection is returned with \<open>close=True\<close>, and an exception of that
  call is swallowed (\<open>except Exception: pass\<close>).
\<close>

definition validation_attempt :: "env \<Rightarrow> world \<Rightarrow> (exn + conn) \<times> world" where
  "validation_attempt env w =
     (case get_connection env w of
        (Inl e, w1) \<Rightarrow> (Inl e, w1)
      | (Inr c, w1) \<Rightarrow>
          (case probe env c w1 of
             (None, w2) \<Rightarrow> (Inr c, w2)
           | (Some e, w2) \<Rightarrow> (Inl e, snd (return_connection env c True w2))))"

text \<open>
  The world after \<open>k\<close> turns of the loop, one after the other, and the outcome of the
  turn that follows them.
\<close>

fun after_attempts :: "env \<Rightarrow> nat \<Rightarrow> world \<Rightarrow> world" where
  "after_attempts env 0 w = w"
| "after_attempts env (Suc k) w = after_attempts env k (snd (validation_attempt env w))"

definition attempt_outcome :: "env \<Rightarrow> nat \<Rightarrow> world \<Rightarrow> exn + conn" where
  "attempt_outcome env k w = fst (validation_attempt env (after_attempts env k w))"

definition failed_after :: "int \<Rightarrow> exn \<Rightarrow> exn" where
  "failed_after max_retries e =
     Exn RuntimeError
       (''Failed to get valid connection after '' @ str_int max_retries @ '' attempts'') (Some e)"

text \<open>\<open>for attempt in range(max_retries)\<close>, from the turn \<open>attempt\<close> on.\<close>

function get_valid_connection_from :: "env \<Rightarrow> int \<Rightarrow> int \<Rightarrow> world \<Rightarrow> (exn + conn) \<times> world" where
  "get_valid_connection_from env max_retries attempt w =
     (if attempt < max_retries then
        (case validation_attempt env w of
           (Inr c, w1) \<Rightarrow> (Inr c, w1)
         | (Inl e, w1) \<Rightarrow>
             if attempt = max_retries - 1 then (Inl (failed_after max_retries e), w1)
             else get_valid_connection_from env max_retries (attempt + 1) w1)
      else (Inl (Exn RuntimeError ''Failed to get valid connection'' None), w))"
  by pat_completeness auto
termination
  by (relation "measure (\<lambda>(env, max_retries, attempt, w). nat (max_retries - attempt))") auto

declare get_valid_connection_from.simps [simp del]
declare str_nat.simps [simp del]

definition get_valid_connection :: "env \<Rightarrow> int \<Rightarrow> world \<Rightarrow> (exn + conn) \<times> world" where
  "get_valid_connection env max_retries w = get_valid_connection_from env max_retries 0 w"

definition close_pool :: "world \<Rightarrow> exn option \<times> world" where
  "close_pool w =
     (case connection_pool w of
        None \<Rightarrow> (None, w)
      | Some p \<Rightarrow> pool_closeall p w)"

text \<open>
  The \<open>finally\<close> clause of the three operations, entered with a connection:
  \<open>return_connection(conn, close=close_conn)\<close>, then the pending result or exception,
  unless the clause raises itself.
\<close>

definition finally_return ::
  "env \<Rightarrow> conn \<Rightarrow> bool \<Rightarrow> exn + 'a \<Rightarrow> world \<Rightarrow> (exn + 'a) \<times> world" where
  "finally_return env c close_conn pending w =
     (case return_connection env c close_conn w of
        (None, w1) \<Rightarrow> (pending, w1)
      | (Some e, w1) \<Rightarrow> (Inl e, w1))"

text \<open>
  When \<open>get_valid_connection\<close> raises, \<open>conn\<close> is \<open>None\<close>: the handler re-raises and the
  \<open>finally\<close> clause returns nothing.
\<close>

definition get_notes_by_day :: "env \<Rightarrow> date \<Rightarrow> world \<Rightarrow> (exn + note_row list) \<times> world" where
  "get_notes_by_day env target_date w =
     (case get_valid_connection env 3 w of
        (Inl e, w1) \<Rightarrow> (Inl e, w1)
      | (Inr c, w1) \<Rightarrow>
          (case execute env c (NotesByDay target_date) w1 of
             (None, w2) \<Rightarrow>
               finally_return env c False (Inr (select_by_day (neron w2) target_date)) w2
           | (Some e, w2) \<Rightarrow> finally_return env c True (Inl e) w2))"

definition get_all_notes :: "env \<Rightarrow> world \<Rightarrow> (exn + note_row list) \<times> world" where
  "get_all_notes env w =
     (case get_valid_connection env 3 w of
        (Inl e, w1) \<Rightarrow> (Inl e, w1)
      | (Inr c, w1) \<Rightarrow>
          (case execute env c AllNotes w1 of
             (None, w2) \<Rightarrow> finally_return env c False (Inr (select_all_desc (neron w2))) w2
           | (Some e, w2) \<Rightarrow> finally_return env c True (Inl e) w2))"

text \<open>\<open>voyage_client.embed([query_text], ...)\<close>, giving \<open>result.embeddings\<close>.\<close>

definition voyage_embed :: "env \<Rightarrow> pyval \<Rightarrow> world \<Rightarrow> (exn + vector list) \<times> world" where
  "voyage_embed env query_text w =
     (if \<not> voyage_client w then
        (Inl (Exn AttributeError
               ([CHR 0x27] @ ''NoneType' object has no attribute 'embed'' @ [CHR 0x27]) None), w)
      else (embed_result env (now w) query_text, log_event (Embed query_text) w))"

definition dimension_mismatch :: "config \<Rightarrow> vector \<Rightarrow> exn" where
  "dimension_mismatch cfg query_embedding =
     Exn ValueError
       (''Embedding dimension mismatch: expected '' @ str_int (EMBEDDING_DIMENSION cfg) @
        '', got '' @ str_nat (length query_embedding)) None"

definition search_notes ::
  "config \<Rightarrow> env \<Rightarrow> pyval \<Rightarrow> pyval \<Rightarrow> world \<Rightarrow> (exn + search_row list) \<times> world" where
  "search_notes cfg env query_text top_k w =
     (case voyage_embed env query_text w of
        (Inl e, w1) \<Rightarrow> (Inl e, w1)
      | (Inr [], w1) \<Rightarrow> (Inl (Exn IndexError ''list index out of range'' None), w1)
      | (Inr (query_embedding # _), w1) \<Rightarrow>
          if int (length query_embedding) \<noteq> EMBEDDING_DIMENSION cfg then
            (Inl (dimension_mismatch cfg query_embedding), w1)
          else
            (case get_valid_connection env 3 w1 of
               (Inl e, w2) \<Rightarrow> (Inl e, w2)
             | (Inr c, w2) \<Rightarrow>
                 (case execute env c (Nearest query_embedding top_k) w2 of
                    (None, w3) \<Rightarrow>
                      finally_return env c False
                        (Inr (nearest_rows env (neron w3) query_embedding top_k)) w3
                  | (Some e, w3) \<Rightarrow> finally_return env c True (Inl e) w3)))"

section \<open>server.py: tool dispatch\<close>

datatype text_content = TextContent string

fun py_str :: "env \<Rightarrow> pyval \<Rightarrow> string" where
  "py_str env PyNone = ''None''"
| "py_str env (PyBool b) = (if b then ''True'' else ''False'')"
| "py_str env (PyInt i) = str_int i"
| "py_str env (PyFloat f) = float_str env f"
| "py_str env (PyStr s) = s"
| "py_str env (PyList s) = s"
| "py_str env (PyDict s) = s"

definition key_error :: "string \<Rightarrow> exn" where
  "key_error k = Exn KeyError ([CHR 0x27] @ k @ [CHR 0x27]) None"

text \<open>\<open>top_k <= 0\<close>: a \<open>bool\<close> compares as 0 or 1; a value that is not a number raises.\<close>

text \<open>How a \<open>TypeError\<close> of a C function names the type of a wrong argument.\<close>

fun arg_type_name :: "pyval \<Rightarrow> string" where
  "arg_type_name PyNone = ''None''"
| "arg_type_name v = type_name v"

fun le_zero :: "pyval \<Rightarrow> exn + bool" where
  "le_zero (PyInt i) = Inr (i \<le> 0)"
| "le_zero (PyBool b) = Inr (\<not> b)"
| "le_zero (PyFloat f) = Inr (float_le_zero f)"
| "le_zero v =
     Inl (Exn TypeError
            ([CHR 0x27] @ ''<=' not supported between instances of '' @ [CHR 0x27] @
             type_name v @ [CHR 0x27] @ '' and 'int'' @ [CHR 0x27]) None)"

definition nl :: string where
  "nl = [CHR 0x0A]"

fun join_nl :: "string list \<Rightarrow> string" where
  "join_nl [] = []"
| "join_nl [x] = x"
| "join_nl (x # y # ys) = x @ nl @ join_nl (y # ys)"

text \<open>The three \<open>for i, (...) in enumerate(rows, 1)\<close> loops, from the index \<open>i\<close> on.\<close>

fun day_lines :: "env \<Rightarrow> nat \<Rightarrow> note_row list \<Rightarrow> string list" where
  "day_lines env i [] = []"
| "day_lines env i ((nid, ts, text) # rest) =
     (nl @ str_nat i @ ''. ['' @ strftime env ts ''%H:%M:%S'' @ ''] '' @ text)
       # day_lines env (Suc i) rest"

fun all_lines :: "env \<Rightarrow> nat \<Rightarrow> note_row list \<Rightarrow> string list" where
  "all_lines env i [] = []"
| "all_lines env i ((nid, ts, text) # rest) =
     (nl @ str_nat i @ ''. ['' @ strftime env ts ''%Y-%m-%d %H:%M'' @ ''] '' @ text)
       # all_lines env (Suc i) rest"

fun search_lines :: "env \<Rightarrow> nat \<Rightarrow> search_row list \<Rightarrow> string list" where
  "search_lines env i [] = []"
| "search_lines env i ((nid, text, ts, similarity) # rest) =
     (nl @ str_nat i @ ''. ['' @ percent_1f env similarity @ ''%] '' @ strftime env ts ''%Y-%m-%d'')
       # (''   '' @ text)
       # search_lines env (Suc i) rest"

text \<open>The body of the \<open>try\<close> of \<open>call_tool\<close>, one definition for each branch.\<close>

definition tool_get_notes_per_day ::
  "env \<Rightarrow> (string \<rightharpoonup> pyval) \<Rightarrow> world \<Rightarrow> (exn + text_content list) \<times> world" where
  "tool_get_notes_per_day env arguments w =
     (case arguments ''day'' of
        None \<Rightarrow> (Inl (key_error ''day''), w)
      | Some (PyStr day_str) \<Rightarrow>
          (case strptime_ymd env day_str of
             None \<Rightarrow> (Inr [TextContent (''Invalid date format: '' @ day_str)], w)
           | Some target_date \<Rightarrow>
               (case get_notes_by_day env target_date w of
                  (Inl e, w1) \<Rightarrow> (Inl e, w1)
                | (Inr notes, w1) \<Rightarrow>
                    if notes = [] then
                      (Inr [TextContent (''No notes found for '' @ day_str)], w1)
                    else
                      (Inr [TextContent (join_nl
                         ((''Found '' @ str_nat (length notes) @ '' note(s) for '' @ day_str @
                           '':'' @ nl) # day_lines env 1 notes))], w1)))
      | Some v \<Rightarrow>
          (Inl (Exn TypeError (''strptime() argument 1 must be str, not '' @ arg_type_name v)
                  None),
           w))"

definition tool_get_all_notes :: "env \<Rightarrow> world \<Rightarrow> (exn + text_content list) \<times> world" where
  "tool_get_all_notes env w =
     (case get_all_notes env w of
        (Inl e, w1) \<Rightarrow> (Inl e, w1)
      | (Inr notes, w1) \<Rightarrow>
          if notes = [] then (Inr [TextContent ''No notes found''], w1)
          else
            (Inr [TextContent (join_nl
               ((''Found '' @ str_nat (length notes) @ '' note(s):'' @ nl)
                 # all_lines env 1 notes))], w1))"

definition tool_search ::
  "config \<Rightarrow> env \<Rightarrow> (string \<rightharpoonup> pyval) \<Rightarrow> world \<Rightarrow> (exn + text_content list) \<times> world" where
  "tool_search cfg env arguments w =
     (case arguments ''text'' of
        None \<Rightarrow> (Inl (key_error ''text''), w)
      | Some query_text \<Rightarrow>
          (let top_k = (case arguments ''top_k'' of None \<Rightarrow> PyInt 5 | Some v \<Rightarrow> v) in
           case le_zero top_k of
             Inl e \<Rightarrow> (Inl e, w)
           | Inr True \<Rightarrow> (Inr [TextContent ''top_k must be positive''], w)
           | Inr False \<Rightarrow>
               (case search_notes cfg env query_text top_k w of
                  (Inl e, w1) \<Rightarrow> (Inl e, w1)
                | (Inr results, w1) \<Rightarrow>
                    if results = [] then
                      (Inr [TextContent (''No results for: '' @ [CHR 0x27] @
                              py_str env query_text @ [CHR 0x27])], w1)
                    else
                      (Inr [TextContent (join_nl
                         ((''Found '' @ str_nat (length results) @ '' result(s) for '' @
                           [CHR 0x27] @ py_str env query_text @ [CHR 0x27] @ '':'' @ nl)
                           # search_lines env 1 results))], w1))))"

definition call_tool_try ::
  "config \<Rightarrow> env \<Rightarrow> string \<Rightarrow> (string \<rightharpoonup> pyval) \<Rightarrow> world \<Rightarrow> (exn + text_content list) \<times> world" where
  "call_tool_try cfg env name arguments w =
     (if name = ''get_notes_per_day'' then tool_get_notes_per_day env arguments w
      else if name = ''get_all_notes'' then tool_get_all_notes env w
      else if name = ''search'' then tool_search cfg env arguments w
      else (Inr [TextContent (''Unknown tool: '' @ name)], w))"

text \<open>\<open>call_tool\<close>: the \<open>try\<close> and its handler \<open>except Exception as e\<close>.\<close>

definition call_tool ::
  "config \<Rightarrow> env \<Rightarrow> string \<Rightarrow> (string \<rightharpoonup> pyval) \<Rightarrow> world \<Rightarrow> (exn + text_content list) \<times> world" where
  "call_tool cfg env name arguments w =
     (case call_tool_try cfg env name arguments w of
        (Inr r, w1) \<Rightarrow> (Inr r, w1)
      | (Inl e, w1) \<Rightarrow> (Inr [TextContent (''Error: '' @ msg e)], w1))"

section \<open>Reading the log\<close>

text \<open>
  In a log, every probe that failed is directly followed by the return of the probed
  connection with \<open>close=True\<close>.
\<close>

fun failed_probes_closed :: "event list \<Rightarrow> bool" where
  "failed_probes_closed [] = True"
| "failed_probes_closed (ev # rest) =
     ((case ev of Probe c ok \<Rightarrow> ok \<or> take 1 rest = [PutConn c True] | _ \<Rightarrow> True)
      \<and> failed_probes_closed rest)"

text \<open>
  What a run of the validation loop from \<open>w\<close> to \<open>w'\<close> with result \<open>r\<close> has logged, when
  it was allowed \<open>k\<close> attempts: \<open>evs\<close> is what the run added to the log; it asked the pool
  at most \<open>k\<close> times; each failed probe was followed by the closing return, and the
  probed connection is closed afterwards; a returned connection passed the probe that ends
  the log, and is open.
\<close>

definition validation_log :: "nat \<Rightarrow> world \<Rightarrow> exn + conn \<Rightarrow> world \<Rightarrow> event list \<Rightarrow> bool" where
  "validation_log k w r w' evs \<longleftrightarrow>
     trace w' = trace w @ evs \<and>
     count_list evs GetConn \<le> k \<and>
     failed_probes_closed evs \<and>
     (\<forall>c. Probe c False \<in> set evs \<longrightarrow> c \<in> set (closed_conns w')) \<and>
     set (closed_conns w) \<subseteq> set (closed_conns w') \<and>
     (\<forall>c. r = Inr c \<longrightarrow> evs \<noteq> [] \<and> last evs = Probe c True \<and> c \<notin> set (closed_conns w'))"

text \<open>The connections that are checked out of the pool (none while there is no pool).\<close>

definition checked_out :: "world \<Rightarrow> conn list" where
  "checked_out w = (case connection_pool w of None \<Rightarrow> [] | Some p \<Rightarrow> used p)"

section \<open>Example environments\<close>

text \<open>
  A configuration, a store that always answers, and a started process with two idle
  connections and three stored notes; used to run the definitions on concrete inputs.
\<close>

definition example_config :: config where
  "example_config =
     \<lparr>MCP_SERVER_NAME = ''neron-mcp'', MCP_AUTH_TOKEN = Some ''s3cret'',
      VOYAGE_API_KEY = Some ''key'', VOYAGE_MODEL = ''voyage-3-large'',
      EMBEDDING_DIMENSION = 1024, DB_MIN_CONNECTIONS = 2, DB_MAX_CONNECTIONS = 10\<rparr>"


definition steady_env :: env where
  "steady_env =
     \<lparr>strptime_ymd = (\<lambda>s. if s = ''2024-01-15'' then Some (2024, 1, 15) else None),
      strftime = (\<lambda>ts fmt. fmt),
      float_str = (\<lambda>f. ''0.0''),
      percent_1f = (\<lambda>f. ''0.0''),
      connect_result = (\<lambda>t. None),
      probe_result = (\<lambda>t c. None),
      execute_result = (\<lambda>t c q. None),
      transaction_status = (\<lambda>t c. StatusInTransaction),
      rollback_result = (\<lambda>t c. None),
      embed_result = (\<lambda>t q. Inr ([Finite 0, Finite 1] # [])),
      nearest_rows = (\<lambda>tbl v k. [])\<rparr>"

definition timeout_error :: exn where
  "timeout_error = Exn (OtherError ''OperationalError'') ''server closed the connection'' None"

text \<open>A store on which every probe fails, and one on which every statement fails.\<close>

definition dead_env :: env where
  "dead_env = steady_env\<lparr>probe_result := (\<lambda>t c. Some timeout_error)\<rparr>"

text \<open>A store whose probes fail during the first five external calls.\<close>

definition flaky_env :: env where
  "flaky_env =
     steady_env\<lparr>probe_result := (\<lambda>t c. if t < 5 then Some timeout_error else None)\<rparr>"



definition example_notes :: "neron_note list" where
  "example_notes =
     [\<lparr>note_id = 1, note_timestamp = ((2024, 1, 15), (18, 30, 0, 0)),
       note_text = ''evening'', note_embedding = []\<rparr>,
      \<lparr>note_id = 2, note_timestamp = ((2024, 1, 14), (9, 0, 0, 0)),
       note_text = ''day before'', note_embedding = []\<rparr>,
      \<lparr>note_id = 3, note_timestamp = ((2024, 1, 15), (8, 5, 0, 0)),
       note_text = ''morning'', note_embedding = []\<rparr>]"

definition started_world :: world where
  "started_world =
     \<lparr>connection_pool =
        Some \<lparr>minconn = 2, maxconn = 10, idle = [0, 1], used = [], closed = False\<rparr>,
      voyage_client = True, closed_conns = [], fresh = 2, neron = example_notes,
      trace = []\<rparr>"

text \<open>The process before \<open>initialize_pool\<close> has run: both globals are \<open>None\<close>.\<close>

definition unstarted_world :: world where
  "unstarted_world =
     \<lparr>connection_pool = None, voyage_client = False, closed_conns = [], fresh = 0,
      neron = example_notes, trace = []\<rparr>"

section \<open>Properties of the bearer gate\<close>

lemma startswith_Bearer: "startswith h ''Bearer '' \<longleftrightarrow> take 7 h = ''Bearer ''"
proof -
  have "length ''Bearer '' = 7" by simp
  then show ?thesis unfolding startswith_def by (simp only:)
qed

lemma verify_token_iff:
  "verify_token cfg req \<longleftrightarrow>
     (\<exists>h. headers req ''Authorization'' = Some h \<and> take 7 h = ''Bearer '' \<and>
          MCP_AUTH_TOKEN cfg = Some (drop 7 h))"
  by (auto simp: verify_token_def startswith_Bearer split: option.splits)

lemma verify_token_exact:
  "verify_token cfg req \<longleftrightarrow>
     (\<exists>t. MCP_AUTH_TOKEN cfg = Some t \<and> headers req ''Authorization'' = Some (''Bearer '' @ t))"
proof
  assume "verify_token cfg req"
  then obtain h where h: "headers req ''Authorization'' = Some h" "take 7 h = ''Bearer ''"
    "MCP_AUTH_TOKEN cfg = Some (drop 7 h)"
    by (auto simp: verify_token_iff)
  have "h = take 7 h @ drop 7 h" by simp
  with h show "\<exists>t. MCP_AUTH_TOKEN cfg = Some t \<and> headers req ''Authorization'' = Some (''Bearer '' @ t)"
    by metis
next
  assume "\<exists>t. MCP_AUTH_TOKEN cfg = Some t \<and> headers req ''Authorization'' = Some (''Bearer '' @ t)"
  then show "verify_token cfg req"
    by (auto simp: verify_token_iff)
qed

lemma handle_mcp_accepts:
  "verify_token cfg req \<Longrightarrow> handle_mcp cfg req = Inr (Forward req)"
  by (simp add: handle_mcp_def)

text \<open>
  C1. The gate's decision is as the claim says (\<open>verify_token_exact\<close>), and a rejected request
  is never forwarded. But the rejection path builds its challenge header from
  \<open>config.SERVER_DOMAIN\<close>, which config.py does not define: on every rejected request
  \<open>handle_mcp\<close> raises \<open>AttributeError\<close> instead of returning the 401 response.
\<close>

theorem handle_mcp_rejected_raises:
  "\<not> verify_token cfg req \<Longrightarrow>
     handle_mcp cfg req =
       Inl (Exn AttributeError (''module 'config' has no attribute 'SERVER_DOMAIN'' @ [CHR 0x27]) None)"
  by (simp add: handle_mcp_def SERVER_DOMAIN_def)

theorem handle_mcp_rejected_raises_witness:
  "\<not> verify_token \<lparr>MCP_SERVER_NAME = ''neron-mcp'', MCP_AUTH_TOKEN = Some ''s3cret'',
        VOYAGE_API_KEY = None, VOYAGE_MODEL = ''voyage-3-large'', EMBEDDING_DIMENSION = 1024,
        DB_MIN_CONNECTIONS = 2, DB_MAX_CONNECTIONS = 10\<rparr>
      \<lparr>headers = [''Authorization'' \<mapsto> ''Bearer wrong-token'']\<rparr>
   \<and> handle_mcp \<lparr>MCP_SERVER_NAME = ''neron-mcp'', MCP_AUTH_TOKEN = Some ''s3cret'',
        VOYAGE_API_KEY = None, VOYAGE_MODEL = ''voyage-3-large'', EMBEDDING_DIMENSION = 1024,
        DB_MIN_CONNECTIONS = 2, DB_MAX_CONNECTIONS = 10\<rparr>
      \<lparr>headers = [''Authorization'' \<mapsto> ''Bearer wrong-token'']\<rparr>
     = Inl (Exn AttributeError (''module 'config' has no attribute 'SERVER_DOMAIN'' @ [CHR 0x27]) None)"
proof -
  have h: "\<not> verify_token \<lparr>MCP_SERVER_NAME = ''neron-mcp'', MCP_AUTH_TOKEN = Some ''s3cret'',
        VOYAGE_API_KEY = None, VOYAGE_MODEL = ''voyage-3-large'', EMBEDDING_DIMENSION = 1024,
        DB_MIN_CONNECTIONS = 2, DB_MAX_CONNECTIONS = 10\<rparr>
      \<lparr>headers = [''Authorization'' \<mapsto> ''Bearer wrong-token'']\<rparr>"
    by (simp add: verify_token_def startswith_def)
  from h handle_mcp_rejected_raises [OF h] show ?thesis by simp
qed

section \<open>Properties of the token exchange\<close>

text \<open>
  C8. For every POST whose form can be read, whatever its \<open>code\<close> field is and whether it
  has one or not, the response is the same dictionary: its access token is the configured
  \<open>MCP_AUTH_TOKEN\<close> and its expiry is the constant 315360000. A POST whose form cannot
  be read gets no token: \<open>request.form()\<close> raises before the response is built.
\<close>

theorem token_exchange_fixed:
  "(request_form body = Inr form \<longrightarrow>
      token_exchange cfg body =
        Inr [(''access_token'', (case MCP_AUTH_TOKEN cfg of None \<Rightarrow> JNull | Some t \<Rightarrow> JStr t)),
             (''token_type'', JStr ''Bearer''),
             (''expires_in'', JInt 315360000),
             (''scope'', JStr ''user'')]) \<and>
   (request_form body = Inl e \<longrightarrow> token_exchange cfg body = Inl e)"
  by (simp add: token_exchange_def FAKE_TOKEN_def)

theorem token_exchange_fixed_witness:
  "token_exchange example_config (UrlEncoded [''code'' \<mapsto> ''not-a-code-we-issued''])
     = Inr [(''access_token'', JStr ''s3cret''),
            (''token_type'', JStr ''Bearer''),
            (''expires_in'', JInt 315360000),
            (''scope'', JStr ''user'')] \<and>
   token_exchange example_config OtherBody
     = Inr [(''access_token'', JStr ''s3cret''),
            (''token_type'', JStr ''Bearer''),
            (''expires_in'', JInt 315360000),
            (''scope'', JStr ''user'')] \<and>
   token_exchange example_config (BadMultipart ''Missing boundary in multipart.'')
     = Inl (Exn (HTTPException 400) ''Missing boundary in multipart.'' None)"
proof -
  have a: "request_form (UrlEncoded [''code'' \<mapsto> ''not-a-code-we-issued''])
      = Inr [''code'' \<mapsto> ''not-a-code-we-issued'']" by simp
  have b: "request_form OtherBody = Inr Map.empty" by simp
  have c: "request_form (BadMultipart ''Missing boundary in multipart.'')
      = Inl (Exn (HTTPException 400) ''Missing boundary in multipart.'' None)" by simp
  have t: "MCP_AUTH_TOKEN example_config = Some ''s3cret''" by (simp add: example_config_def)
  from a t token_exchange_fixed [where body = "UrlEncoded [''code'' \<mapsto> ''not-a-code-we-issued'']"
      and form = "[''code'' \<mapsto> ''not-a-code-we-issued'']" and cfg = example_config]
  have r1: "token_exchange example_config (UrlEncoded [''code'' \<mapsto> ''not-a-code-we-issued''])
     = Inr [(''access_token'', JStr ''s3cret''), (''token_type'', JStr ''Bearer''),
            (''expires_in'', JInt 315360000), (''scope'', JStr ''user'')]"
    by simp
  from b t token_exchange_fixed [where body = OtherBody and form = Map.empty
      and cfg = example_config]
  have r2: "token_exchange example_config OtherBody
     = Inr [(''access_token'', JStr ''s3cret''), (''token_type'', JStr ''Bearer''),
            (''expires_in'', JInt 315360000), (''scope'', JStr ''user'')]"
    by simp
  from c token_exchange_fixed [where body = "BadMultipart ''Missing boundary in multipart.''"
      and e = "Exn (HTTPException 400) ''Missing boundary in multipart.'' None"
      and cfg = example_config]
  have r3: "token_exchange example_config (BadMultipart ''Missing boundary in multipart.'')
     = Inl (Exn (HTTPException 400) ''Missing boundary in multipart.'' None)"
    by simp
  from r1 r2 r3 show ?thesis by simp
qed

text \<open>
  The claim as stated fails: not every POST is answered with the credential. A multipart
  body that cannot be parsed is answered with status 400.
\<close>

theorem token_exchange_unparsable_counterexample:
  "token_exchange example_config (BadMultipart ''Missing boundary in multipart.'')
     = Inl (Exn (HTTPException 400) ''Missing boundary in multipart.'' None)"
  by (simp add: token_exchange_def)

section \<open>Properties of the tool dispatch\<close>

lemma tool_get_notes_per_day_shape:
  "tool_get_notes_per_day env arguments w = (Inr r, w1) \<Longrightarrow> \<exists>t. r = [TextContent t]"
  by (auto simp: tool_get_notes_per_day_def split: option.splits pyval.splits prod.splits sum.splits if_splits)

lemma tool_get_all_notes_shape:
  "tool_get_all_notes env w = (Inr r, w1) \<Longrightarrow> \<exists>t. r = [TextContent t]"
  by (auto simp: tool_get_all_notes_def split: prod.splits sum.splits if_splits)

lemma tool_search_shape:
  "tool_search cfg env arguments w = (Inr r, w1) \<Longrightarrow> \<exists>t. r = [TextContent t]"
  by (auto simp: tool_search_def Let_def split: option.splits prod.splits sum.splits if_splits bool.splits)

lemma call_tool_try_shape:
  "call_tool_try cfg env name arguments w = (Inr r, w1) \<Longrightarrow> \<exists>t. r = [TextContent t]"
  by (auto simp: call_tool_try_def split: if_splits
      dest: tool_get_notes_per_day_shape tool_get_all_notes_shape tool_search_shape)

lemma call_tool_content:
  "\<exists>t w1. call_tool cfg env name arguments w = (Inr [TextContent t], w1)"
proof (cases "call_tool_try cfg env name arguments w")
  case (Pair r w1)
  show ?thesis
  proof (cases r)
    case (Inl e)
    with Pair show ?thesis by (simp add: call_tool_def)
  next
    case (Inr ts)
    with Pair call_tool_try_shape show ?thesis by (fastforce simp: call_tool_def)
  qed
qed



lemma call_tool_bad_date:
  "arguments ''day'' = Some (PyStr s) \<Longrightarrow> strptime_ymd env s = None \<Longrightarrow>
     call_tool cfg env ''get_notes_per_day'' arguments w =
       (Inr [TextContent (''Invalid date format: '' @ s)], w)"
  by (simp add: call_tool_def call_tool_try_def tool_get_notes_per_day_def)

lemma call_tool_bad_top_k:
  "arguments ''text'' = Some q \<Longrightarrow> arguments ''top_k'' = Some k \<Longrightarrow> le_zero k = Inr True \<Longrightarrow>
     call_tool cfg env ''search'' arguments w =
       (Inr [TextContent ''top_k must be positive''], w)"
  by (simp add: call_tool_def call_tool_try_def tool_search_def)

lemma call_tool_day_error:
  "arguments ''day'' = Some (PyStr s) \<Longrightarrow> strptime_ymd env s = Some d \<Longrightarrow>
   get_notes_by_day env d w = (Inl e, w1) \<Longrightarrow>
     call_tool cfg env ''get_notes_per_day'' arguments w =
       (Inr [TextContent (''Error: '' @ msg e)], w1)"
  by (simp add: call_tool_def call_tool_try_def tool_get_notes_per_day_def)

lemma call_tool_all_error:
  "get_all_notes env w = (Inl e, w1) \<Longrightarrow>
     call_tool cfg env ''get_all_notes'' arguments w =
       (Inr [TextContent (''Error: '' @ msg e)], w1)"
  by (simp add: call_tool_def call_tool_try_def tool_get_all_notes_def)

lemma call_tool_search_error:
  "arguments ''text'' = Some q \<Longrightarrow>
   le_zero (case arguments ''top_k'' of None \<Rightarrow> PyInt 5 | Some v \<Rightarrow> v) = Inr False \<Longrightarrow>
   search_notes cfg env q (case arguments ''top_k'' of None \<Rightarrow> PyInt 5 | Some v \<Rightarrow> v) w = (Inl e, w1) \<Longrightarrow>
     call_tool cfg env ''search'' arguments w =
       (Inr [TextContent (''Error: '' @ msg e)], w1)"
  by (simp add: call_tool_def call_tool_try_def tool_search_def)

text \<open>
  C2. For every tool name, argument dictionary, environment and world, \<open>call_tool\<close> returns
  a list of exactly one text content and raises nothing. A day string that \<open>strptime\<close>
  rejects gives the message \<open>Invalid date format: ...\<close> and a \<open>top_k\<close> that is not
  positive gives \<open>top_k must be positive\<close>, both without touching the world; an exception
  raised by \<open>get_notes_by_day\<close>, \<open>get_all_notes\<close> or \<open>search_notes\<close> comes back as the
  content \<open>Error: \<close> followed by its message.
\<close>

theorem call_tool_never_raises:
  "(\<exists>t w1. call_tool cfg env name arguments w = (Inr [TextContent t], w1)) \<and>
   (arguments ''day'' = Some (PyStr s) \<longrightarrow> strptime_ymd env s = None \<longrightarrow>
      call_tool cfg env ''get_notes_per_day'' arguments w =
        (Inr [TextContent (''Invalid date format: '' @ s)], w)) \<and>
   (arguments ''text'' = Some q \<longrightarrow> arguments ''top_k'' = Some k \<longrightarrow> le_zero k = Inr True \<longrightarrow>
      call_tool cfg env ''search'' arguments w =
        (Inr [TextContent ''top_k must be positive''], w)) \<and>
   (arguments ''day'' = Some (PyStr s) \<longrightarrow> strptime_ymd env s = Some d \<longrightarrow>
    get_notes_by_day env d w = (Inl e, w1) \<longrightarrow>
      call_tool cfg env ''get_notes_per_day'' arguments w =
        (Inr [TextContent (''Error: '' @ msg e)], w1)) \<and>
   (get_all_notes env w = (Inl e, w1) \<longrightarrow>
      call_tool cfg env ''get_all_notes'' arguments w =
        (Inr [TextContent (''Error: '' @ msg e)], w1)) \<and>
   (arguments ''text'' = Some q \<longrightarrow> arguments ''top_k'' = Some k \<longrightarrow> le_zero k = Inr False \<longrightarrow>
    search_notes cfg env q k w = (Inl e, w1) \<longrightarrow>
      call_tool cfg env ''search'' arguments w =
        (Inr [TextContent (''Error: '' @ msg e)], w1))"
  using call_tool_content [of cfg env name arguments w]
    call_tool_bad_date [of arguments s env cfg w]
    call_tool_bad_top_k [of arguments q k cfg env w]
    call_tool_day_error [of arguments s env d w e w1 cfg]
    call_tool_all_error [of env w e w1 cfg arguments]
    call_tool_search_error [of arguments q cfg env w e w1]
  by simp


theorem call_tool_never_raises_witness:
  "call_tool example_config steady_env ''get_notes_per_day'' [''day'' \<mapsto> PyStr ''15/01/2024'']
     started_world
     = (Inr [TextContent ''Invalid date format: 15/01/2024''], started_world) \<and>
   call_tool example_config steady_env ''search''
     [''text'' \<mapsto> PyStr ''meeting'', ''top_k'' \<mapsto> PyInt 0] started_world
     = (Inr [TextContent ''top_k must be positive''], started_world) \<and>
   fst (call_tool example_config dead_env ''get_notes_per_day'' [''day'' \<mapsto> PyStr ''2024-01-15'']
     started_world)
     = Inr [TextContent ''Error: Failed to get valid connection after 3 attempts''] \<and>
   fst (call_tool example_config dead_env ''get_all_notes'' Map.empty started_world)
     = Inr [TextContent ''Error: Failed to get valid connection after 3 attempts''] \<and>
   fst (call_tool example_config steady_env ''search''
     [''text'' \<mapsto> PyStr ''meeting'', ''top_k'' \<mapsto> PyInt 3] started_world)
     = Inr [TextContent ''Error: Embedding dimension mismatch: expected 1024, got 2'']"
proof -
  let ?bad = "[''day'' \<mapsto> PyStr ''15/01/2024'']"
  let ?day = "[''day'' \<mapsto> PyStr ''2024-01-15'']"
  let ?zero = "[''text'' \<mapsto> PyStr ''meeting'', ''top_k'' \<mapsto> PyInt 0]"
  let ?three = "[''text'' \<mapsto> PyStr ''meeting'', ''top_k'' \<mapsto> PyInt 3]"
  let ?e = "failed_after 3 timeout_error"
  let ?m = "dimension_mismatch example_config [Finite 0, Finite 1]"
  have a1: "?bad ''day'' = Some (PyStr ''15/01/2024'')" by simp
  have a2: "strptime_ymd steady_env ''15/01/2024'' = None" by (simp add: steady_env_def)
  have b1: "?zero ''text'' = Some (PyStr ''meeting'')" by simp
  have b2: "?zero ''top_k'' = Some (PyInt 0)" by simp
  have b3: "le_zero (PyInt 0) = Inr True" by simp
  have c1: "?day ''day'' = Some (PyStr ''2024-01-15'')" by simp
  have c2: "strptime_ymd dead_env ''2024-01-15'' = Some (2024, 1, 15)"
    by (simp add: dead_env_def steady_env_def)
  have "fst (get_notes_by_day dead_env (2024, 1, 15) started_world) = Inl ?e" by code_simp
  then have c3: "get_notes_by_day dead_env (2024, 1, 15) started_world
      = (Inl ?e, snd (get_notes_by_day dead_env (2024, 1, 15) started_world))"
    by (metis prod.collapse)
  have "fst (get_all_notes dead_env started_world) = Inl ?e" by code_simp
  then have d1: "get_all_notes dead_env started_world
      = (Inl ?e, snd (get_all_notes dead_env started_world))"
    by (metis prod.collapse)
  have e1: "?three ''text'' = Some (PyStr ''meeting'')" by simp
  have e2: "?three ''top_k'' = Some (PyInt 3)" by simp
  have e3: "le_zero (PyInt 3) = Inr False" by simp
  have "fst (search_notes example_config steady_env (PyStr ''meeting'') (PyInt 3) started_world)
      = Inl ?m" by code_simp
  then have e4: "search_notes example_config steady_env (PyStr ''meeting'') (PyInt 3) started_world
      = (Inl ?m, snd (search_notes example_config steady_env (PyStr ''meeting'') (PyInt 3)
           started_world))"
    by (metis prod.collapse)
  have m1: "msg ?e = ''Failed to get valid connection after 3 attempts''" by code_simp
  have m2: "msg ?m = ''Embedding dimension mismatch: expected 1024, got 2''" by code_simp
  from a1 a2 call_tool_never_raises [where arguments = ?bad and s = "''15/01/2024''"
      and env = steady_env and cfg = example_config and w = started_world]
  have r1: "call_tool example_config steady_env ''get_notes_per_day'' ?bad started_world
     = (Inr [TextContent (''Invalid date format: '' @ ''15/01/2024'')], started_world)"
    by blast
  from b1 b2 b3 call_tool_never_raises [where arguments = ?zero and q = "PyStr ''meeting''"
      and k = "PyInt 0" and env = steady_env and cfg = example_config and w = started_world]
  have r2: "call_tool example_config steady_env ''search'' ?zero started_world
     = (Inr [TextContent ''top_k must be positive''], started_world)"
    by blast
  from c1 c2 c3 call_tool_never_raises [where arguments = ?day and s = "''2024-01-15''"
      and d = "(2024, 1, 15)" and e = ?e and env = dead_env and cfg = example_config
      and w = started_world
      and ?w1.0 = "snd (get_notes_by_day dead_env (2024, 1, 15) started_world)"]
  have r3: "fst (call_tool example_config dead_env ''get_notes_per_day'' ?day started_world)
     = Inr [TextContent (''Error: '' @ msg ?e)]"
    by simp
  from d1 call_tool_never_raises [where arguments = Map.empty and e = ?e and env = dead_env
      and cfg = example_config and w = started_world
      and ?w1.0 = "snd (get_all_notes dead_env started_world)"]
  have r4: "fst (call_tool example_config dead_env ''get_all_notes'' Map.empty started_world)
     = Inr [TextContent (''Error: '' @ msg ?e)]"
    by simp
  from e1 e2 e3 e4 call_tool_never_raises [where arguments = ?three and q = "PyStr ''meeting''"
      and k = "PyInt 3" and e = ?m and env = steady_env and cfg = example_config
      and w = started_world
      and ?w1.0 = "snd (search_notes example_config steady_env (PyStr ''meeting'') (PyInt 3)
           started_world)"]
  have r5: "fst (call_tool example_config steady_env ''search'' ?three started_world)
     = Inr [TextContent (''Error: '' @ msg ?m)]"
    by simp
  from r1 r2 r3 r4 r5 m1 m2 show ?thesis by simp
qed

section \<open>Properties of the search\<close>

text \<open>
  C4. When the embedding service answers with a vector whose length is not
  \<open>EMBEDDING_DIMENSION\<close>, \<open>search_notes\<close> raises the \<open>ValueError\<close>
  \<open>Embedding dimension mismatch: ...\<close>, and the embedding request is the only thing that
  has happened: no connection was asked of the pool and no statement was sent.
\<close>

theorem search_notes_dimension_mismatch:
  "voyage_client w \<Longrightarrow> embed_result env (now w) q = Inr (v # vs) \<Longrightarrow>
   int (length v) \<noteq> EMBEDDING_DIMENSION cfg \<Longrightarrow>
     search_notes cfg env q k w =
       (Inl (dimension_mismatch cfg v), w\<lparr>trace := trace w @ [Embed q]\<rparr>) \<and>
     cls (dimension_mismatch cfg v) = ValueError"
  by (simp add: search_notes_def voyage_embed_def log_event_def dimension_mismatch_def)

theorem search_notes_dimension_mismatch_witness:
  "search_notes example_config steady_env (PyStr ''meeting'') (PyInt 3) started_world =
     (Inl (Exn ValueError ''Embedding dimension mismatch: expected 1024, got 2'' None),
      started_world\<lparr>trace := [Embed (PyStr ''meeting'')]\<rparr>)"
proof -
  have a: "voyage_client started_world" by (simp add: started_world_def)
  have b: "embed_result steady_env (now started_world) (PyStr ''meeting'')
      = Inr ([Finite 0, Finite 1] # [])"
    by (simp add: steady_env_def)
  have c: "int (length [Finite 0, Finite 1]) \<noteq> EMBEDDING_DIMENSION example_config"
    by (simp add: example_config_def)
  have m: "dimension_mismatch example_config [Finite 0, Finite 1]
      = Exn ValueError ''Embedding dimension mismatch: expected 1024, got 2'' None"
    by code_simp
  have t: "trace started_world = []" by (simp add: started_world_def)
  from search_notes_dimension_mismatch [OF a b c, of "PyInt 3"] m t show ?thesis by simp
qed

section \<open>Properties of the pool handling\<close>

lemma validation_attempt_uninitialized:
  "connection_pool w = None \<Longrightarrow> validation_attempt env w = (Inl pool_not_initialized, w)"
  by (simp add: validation_attempt_def get_connection_def)

lemma get_valid_connection_from_uninitialized:
  "connection_pool w = None \<Longrightarrow> attempt < max_retries \<Longrightarrow>
     get_valid_connection_from env max_retries attempt w =
       (Inl (failed_after max_retries pool_not_initialized), w)"
proof (induction env max_retries attempt w rule: get_valid_connection_from.induct)
  case (1 env max_retries attempt w)
  note va = validation_attempt_uninitialized [OF "1.prems"(1), of env]
  show ?case
  proof (cases "attempt = max_retries - 1")
    case True
    with va "1.prems" show ?thesis
      by (subst get_valid_connection_from.simps) simp
  next
    case False
    with "1.prems" have "attempt + 1 < max_retries" by simp
    with "1.IH" [OF "1.prems"(2) va [symmetric] refl False "1.prems"(1)]
    have "get_valid_connection_from env max_retries (attempt + 1) w =
       (Inl (failed_after max_retries pool_not_initialized), w)" .
    with va False "1.prems" show ?thesis
      by (subst get_valid_connection_from.simps) simp
  qed
qed

lemma get_valid_connection_uninitialized:
  "connection_pool w = None \<Longrightarrow> 0 < max_retries \<Longrightarrow>
     get_valid_connection env max_retries w =
       (Inl (failed_after max_retries pool_not_initialized), w)"
  by (simp add: get_valid_connection_def get_valid_connection_from_uninitialized)

text \<open>
  C10. While \<open>connection_pool\<close> is \<open>None\<close>: \<open>get_connection\<close> raises the explicit
  \<open>RuntimeError\<close> that names the missing initialisation, and \<open>return_connection\<close> does
  nothing. \<open>get_valid_connection\<close> (with at least one attempt) and the two repository
  operations catch that error on each attempt and raise, with the world untouched, the
  \<open>RuntimeError\<close> \<open>Failed to get valid connection after N attempts\<close>, which carries the
  explicit error only as its cause. \<open>search_notes\<close> does not come that far: the embedding
  client is \<open>None\<close> as well, and it raises \<open>AttributeError\<close>.
\<close>

theorem uninitialized_pool:
  "connection_pool w = None \<Longrightarrow>
     get_connection env w = (Inl pool_not_initialized, w) \<and>
     return_connection env c close w = (None, w) \<and>
     (0 < n \<longrightarrow> get_valid_connection env n w = (Inl (failed_after n pool_not_initialized), w)) \<and>
     get_notes_by_day env d w = (Inl (failed_after 3 pool_not_initialized), w) \<and>
     get_all_notes env w = (Inl (failed_after 3 pool_not_initialized), w) \<and>
     (\<not> voyage_client w \<longrightarrow>
        search_notes cfg env q k w =
          (Inl (Exn AttributeError
                  ([CHR 0x27] @ ''NoneType' object has no attribute 'embed'' @ [CHR 0x27]) None), w))"
  by (simp add: get_connection_def return_connection_def get_valid_connection_uninitialized
      get_notes_by_day_def get_all_notes_def search_notes_def voyage_embed_def)

theorem uninitialized_pool_witness:
  "get_connection steady_env unstarted_world =
     (Inl (Exn RuntimeError ''Connection pool not initialized. Call initialize_pool() first.''
        None), unstarted_world) \<and>
   return_connection steady_env 0 False unstarted_world = (None, unstarted_world) \<and>
   get_valid_connection steady_env 3 unstarted_world =
     (Inl (Exn RuntimeError ''Failed to get valid connection after 3 attempts''
        (Some pool_not_initialized)), unstarted_world) \<and>
   get_all_notes steady_env unstarted_world =
     (Inl (Exn RuntimeError ''Failed to get valid connection after 3 attempts''
        (Some pool_not_initialized)), unstarted_world) \<and>
   cls (projl (fst (search_notes example_config steady_env (PyStr ''meeting'') (PyInt 5)
     unstarted_world))) = AttributeError"
proof -
  have a: "connection_pool unstarted_world = None" by (simp add: unstarted_world_def)
  have b: "\<not> voyage_client unstarted_world" by (simp add: unstarted_world_def)
  have f: "failed_after 3 pool_not_initialized =
      Exn RuntimeError ''Failed to get valid connection after 3 attempts''
        (Some pool_not_initialized)"
    by code_simp
  from uninitialized_pool [OF a, of steady_env 0 False 3 "(2024, 1, 15)" example_config
      "PyStr ''meeting''" "PyInt 5"] b f
  show ?thesis by (simp add: pool_not_initialized_def)
qed

text \<open>
  The claim as stated fails: before initialisation a repository operation raises an error
  whose message does not mention the pool's initialisation, and the search raises an
  \<open>AttributeError\<close>.
\<close>

theorem uninitialized_pool_counterexample:
  "fst (get_notes_by_day steady_env (2024, 1, 15) unstarted_world) =
     Inl (Exn RuntimeError ''Failed to get valid connection after 3 attempts''
       (Some pool_not_initialized)) \<and>
   msg (projl (fst (get_notes_by_day steady_env (2024, 1, 15) unstarted_world)))
     \<noteq> msg pool_not_initialized \<and>
   cls (projl (fst (search_notes example_config steady_env (PyStr ''meeting'') (PyInt 5)
     unstarted_world))) \<noteq> RuntimeError"
  by code_simp

text \<open>
  C9. On an initialised, open pool \<open>close_pool\<close> closes every connection, idle or checked
  out, and marks the pool closed; before initialisation it does nothing. It is written to
  be called once: the handle is not reset, so a second call reaches \<open>closeall\<close> on the
  closed pool, which raises \<open>connection pool is closed\<close>; that second call changes nothing
  but the log.
\<close>

theorem close_pool_once:
  "(connection_pool w = None \<longrightarrow> close_pool w = (None, w)) \<and>
   (connection_pool w = Some p \<longrightarrow> \<not> closed p \<longrightarrow>
      fst (close_pool w) = None \<and>
      set (idle p) \<union> set (used p) \<subseteq> set (closed_conns (snd (close_pool w))) \<and>
      connection_pool (snd (close_pool w)) = Some (p\<lparr>closed := True\<rparr>) \<and>
      fst (close_pool (snd (close_pool w)))
        = Some (Exn PoolError ''connection pool is closed'' None) \<and>
      snd (close_pool (snd (close_pool w)))
        = (snd (close_pool w))\<lparr>trace := trace w @ [CloseAll, CloseAll]\<rparr>)"
  by (auto simp: close_pool_def pool_closeall_def log_event_def Let_def)

theorem close_pool_once_witness:
  "close_pool unstarted_world = (None, unstarted_world) \<and>
   fst (close_pool started_world) = None \<and>
   {0, 1} \<subseteq> set (closed_conns (snd (close_pool started_world))) \<and>
   fst (close_pool (snd (close_pool started_world)))
     = Some (Exn PoolError ''connection pool is closed'' None)"
proof -
  have a: "connection_pool unstarted_world = None" by (simp add: unstarted_world_def)
  have b: "connection_pool started_world
      = Some \<lparr>minconn = 2, maxconn = 10, idle = [0, 1], used = [], closed = False\<rparr>"
    by (simp add: started_world_def)
  have c: "\<not> closed \<lparr>minconn = 2, maxconn = 10, idle = [0, 1], used = [], closed = False\<rparr>"
    by simp
  from a close_pool_once [of unstarted_world]
  have r1: "close_pool unstarted_world = (None, unstarted_world)" by blast
  from b c close_pool_once [of started_world
      "\<lparr>minconn = 2, maxconn = 10, idle = [0, 1], used = [], closed = False\<rparr>"]
  have r2: "fst (close_pool started_world) = None"
    and r3: "set (idle \<lparr>minconn = 2, maxconn = 10, idle = [0, 1], used = [], closed = False\<rparr>)
       \<union> set (used \<lparr>minconn = 2, maxconn = 10, idle = [0, 1], used = [], closed = False\<rparr>)
       \<subseteq> set (closed_conns (snd (close_pool started_world)))"
    and r4: "fst (close_pool (snd (close_pool started_world)))
     = Some (Exn PoolError ''connection pool is closed'' None)"
    by blast+
  from r1 r2 r3 r4 show ?thesis by simp
qed

text \<open>
  The claim as stated fails: after a first successful shutdown, a second call raises.
\<close>

theorem close_pool_twice_counterexample:
  "fst (close_pool started_world) = None \<and>
   fst (close_pool (snd (close_pool started_world)))
     = Some (Exn PoolError ''connection pool is closed'' None)"
  by code_simp

section \<open>Properties of the validated acquisition\<close>

lemma failed_probes_closed_append:
  "failed_probes_closed xs \<Longrightarrow> failed_probes_closed ys \<Longrightarrow> failed_probes_closed (xs @ ys)"
proof (induction xs)
  case Nil
  then show ?case by simp
next
  case (Cons ev rest)
  then show ?case
    by (cases rest) (auto split: event.splits)
qed

lemma validation_attempt_log:
  assumes "validation_attempt env w = (r, w')"
  shows "\<exists>evs. validation_log 1 w r w' evs"
  using assms unfolding validation_log_def
  by (auto simp: validation_attempt_def get_connection_def pool_getconn_def probe_def
      return_connection_def pool_putconn_def log_event_def Let_def
      split: option.splits if_splits sum.splits prod.splits)

lemma validation_log_mono: "validation_log k w r w' evs \<Longrightarrow> k \<le> k' \<Longrightarrow> validation_log k' w r w' evs"
  by (auto simp: validation_log_def)

lemma validation_log_failed:
  "validation_log k w (Inl e) w' evs \<Longrightarrow> validation_log k w (Inl e') w' evs"
  by (auto simp: validation_log_def)

lemma validation_log_nothing: "validation_log k w (Inl e) w []"
  by (simp add: validation_log_def)

lemma validation_log_append:
  assumes "validation_log j w (Inl e) w1 evs1" and "validation_log k w1 r w' evs2"
  shows "validation_log (j + k) w r w' (evs1 @ evs2)"
  using assms unfolding validation_log_def
  by (auto simp: failed_probes_closed_append)

lemma get_valid_connection_from_log:
  "get_valid_connection_from env n a w = (r, w') \<Longrightarrow> \<exists>evs. validation_log (nat (n - a)) w r w' evs"
proof (induction env n a w arbitrary: r w' rule: get_valid_connection_from.induct)
  case (1 env n a w)
  show ?case
  proof (cases "a < n")
    case False
    with "1.prems" have "w' = w" and "\<exists>e. r = Inl e"
      by (auto simp: get_valid_connection_from.simps)
    then show ?thesis using validation_log_nothing by blast
  next
    case True
    obtain r1 w1 where va: "validation_attempt env w = (r1, w1)" by fastforce
    from validation_attempt_log [OF va] obtain evs1 where l1: "validation_log 1 w r1 w1 evs1" ..
    from True have k: "1 \<le> nat (n - a)" by simp
    show ?thesis
    proof (cases r1)
      case (Inr c)
      with "1.prems" True va have "r = r1" "w' = w1"
        by (auto simp: get_valid_connection_from.simps)
      with l1 k show ?thesis using validation_log_mono by blast
    next
      case (Inl e)
      show ?thesis
      proof (cases "a = n - 1")
        case last: True
        with "1.prems" True va Inl have "r = Inl (failed_after n e)" "w' = w1"
          by (auto simp: get_valid_connection_from.simps)
        with l1 Inl k show ?thesis using validation_log_mono validation_log_failed by blast
      next
        case more: False
        with "1.prems" True va Inl have "get_valid_connection_from env n (a + 1) w1 = (r, w')"
          by (simp add: get_valid_connection_from.simps)
        from "1.IH" [OF True va [symmetric] Inl more this]
        obtain evs2 where l2: "validation_log (nat (n - (a + 1))) w1 r w' evs2" ..
        from True have "1 + nat (n - (a + 1)) = nat (n - a)" by simp
        with validation_log_append [OF l1 [unfolded Inl] l2] show ?thesis by auto
      qed
    qed
  qed
qed


lemma get_valid_connection_from_error:
  "get_valid_connection_from env n a w = (Inl e, w') \<Longrightarrow>
     cls e = RuntimeError \<and>
     msg e = (if a < n then ''Failed to get valid connection after '' @ str_int n @ '' attempts''
              else ''Failed to get valid connection'')"
proof (induction env n a w arbitrary: e w' rule: get_valid_connection_from.induct)
  case (1 env n a w)
  show ?case
  proof (cases "a < n")
    case False
    with "1.prems" show ?thesis
      by (auto simp: get_valid_connection_from.simps)
  next
    case True
    obtain r1 w1 where va: "validation_attempt env w = (r1, w1)" by fastforce
    show ?thesis
    proof (cases r1)
      case (Inr c)
      with "1.prems" True va show ?thesis
        by (auto simp: get_valid_connection_from.simps)
    next
      case (Inl e1)
      show ?thesis
      proof (cases "a = n - 1")
        case last: True
        with "1.prems" True va Inl show ?thesis
          by (auto simp: get_valid_connection_from.simps failed_after_def)
      next
        case more: False
        with "1.prems" True va Inl have rec: "get_valid_connection_from env n (a + 1) w1 = (Inl e, w')"
          by (simp add: get_valid_connection_from.simps)
        from more True have "a + 1 < n" by simp
        with "1.IH" [OF True va [symmetric] Inl more rec] True show ?thesis by simp
      qed
    qed
  qed
qed

text \<open>
  The loop in terms of its turns: it returns the connection of the first turn that
  validates one, if there is such a turn among the first \<open>max_retries\<close>; if these all
  fail, it raises after the last of them, from that turn's exception.
\<close>

lemma attempt_outcome_Suc:
  "attempt_outcome env (Suc j) w = attempt_outcome env j (snd (validation_attempt env w))"
  by (simp add: attempt_outcome_def)

lemma after_attempts_Suc:
  "after_attempts env (Suc k) w = snd (validation_attempt env (after_attempts env k w))"
  by (induction k arbitrary: w) simp_all

lemma get_valid_connection_from_first_success:
  "a + int i < n \<Longrightarrow> \<forall>j<i. isl (attempt_outcome env j w) \<Longrightarrow>
   attempt_outcome env i w = Inr c \<Longrightarrow>
     get_valid_connection_from env n a w = (Inr c, after_attempts env (Suc i) w)"
proof (induction i arbitrary: a w)
  case 0
  then obtain w1 where "validation_attempt env w = (Inr c, w1)"
    by (metis attempt_outcome_def after_attempts.simps(1) prod.collapse)
  with 0 show ?case
    by (subst get_valid_connection_from.simps) simp
next
  case (Suc i)
  from Suc.prems(2) have "isl (attempt_outcome env 0 w)" by blast
  then obtain e w1 where va: "validation_attempt env w = (Inl e, w1)"
    by (metis attempt_outcome_def after_attempts.simps(1) prod.collapse sum.collapse(1))
  from Suc.prems(1) have a: "a < n" "a \<noteq> n - 1" "(a + 1) + int i < n" by simp_all
  have all: "\<forall>j<i. isl (attempt_outcome env j w1)"
  proof (intro allI impI)
    fix j assume "j < i"
    then have "isl (attempt_outcome env (Suc j) w)" using Suc.prems(2) by simp
    with va show "isl (attempt_outcome env j w1)" by (simp add: attempt_outcome_Suc)
  qed
  from Suc.prems(3) va have last: "attempt_outcome env i w1 = Inr c"
    by (simp add: attempt_outcome_Suc)
  from Suc.IH [OF a(3) all last] va a(1,2) show ?case
    by (subst get_valid_connection_from.simps) simp
qed

lemma get_valid_connection_from_all_fail:
  "0 < k \<Longrightarrow> n - a = int k \<Longrightarrow> \<forall>j<k. isl (attempt_outcome env j w) \<Longrightarrow>
     get_valid_connection_from env n a w =
       (Inl (failed_after n (projl (attempt_outcome env (k - 1) w))), after_attempts env k w)"
proof (induction k arbitrary: a w)
  case 0
  then show ?case by simp
next
  case (Suc k)
  from Suc.prems(3) have "isl (attempt_outcome env 0 w)" by blast
  then obtain e w1 where va: "validation_attempt env w = (Inl e, w1)"
    by (metis attempt_outcome_def after_attempts.simps(1) prod.collapse sum.collapse(1))
  from Suc.prems(2) have a: "a < n" by simp
  show ?case
  proof (cases k)
    case 0
    with Suc.prems(2) have "a = n - 1" by simp
    with va a 0 show ?thesis
      by (subst get_valid_connection_from.simps) (simp add: attempt_outcome_def)
  next
    case (Suc k')
    with Suc.prems(2) have b: "a \<noteq> n - 1" "n - (a + 1) = int k" "0 < k" by simp_all
    have all: "\<forall>j<k. isl (attempt_outcome env j w1)"
    proof (intro allI impI)
      fix j assume "j < k"
      then have "isl (attempt_outcome env (Suc j) w)" using Suc.prems(3) by simp
      with va show "isl (attempt_outcome env j w1)" by (simp add: attempt_outcome_Suc)
    qed
    from Suc.IH [OF b(3,2) all] va a b(1) Suc show ?thesis
      by (subst get_valid_connection_from.simps) (simp add: attempt_outcome_Suc)
  qed
qed

text \<open>One turn: what it asks of the pool and of the connection.\<close>

lemma validation_attempt_no_connection:
  "get_connection env w = (Inl e, w1) \<Longrightarrow> validation_attempt env w = (Inl e, w1)"
  by (simp add: validation_attempt_def)

lemma validation_attempt_probe_ok:
  "get_connection env w = (Inr c, w1) \<Longrightarrow> probe env c w1 = (None, w2) \<Longrightarrow>
     validation_attempt env w = (Inr c, w2) \<and> trace w2 = trace w1 @ [Probe c True]"
  by (auto simp: validation_attempt_def probe_def log_event_def Let_def)

lemma validation_attempt_probe_failed:
  "get_connection env w = (Inr c, w1) \<Longrightarrow> probe env c w1 = (Some e, w2) \<Longrightarrow>
     fst (validation_attempt env w) = Inl e \<and>
     trace (snd (validation_attempt env w)) = trace w1 @ [Probe c False, PutConn c True] \<and>
     c \<in> set (closed_conns (snd (validation_attempt env w)))"
  by (auto simp: validation_attempt_def get_connection_def pool_getconn_def probe_def
      return_connection_def pool_putconn_def log_event_def Let_def
      split: option.splits if_splits)


text \<open>
  C5. \<open>get_valid_connection\<close> always returns (the loop is a total function). Each turn
  asks the pool for a connection; when it gets one it probes it, returns it at once when
  the probe succeeds, and when the probe fails gives it back with \<open>close=True\<close>, which
  closes it. The loop returns the connection of the first turn that validates one among
  the first \<open>max_retries\<close> turns; when these all fail it raises, after the last of them
  and from its exception, the \<open>RuntimeError\<close>
  \<open>Failed to get valid connection after N attempts\<close>; with no turn allowed it raises
  \<open>Failed to get valid connection\<close> at once. In what one call adds to the log, the pool is
  asked at most \<open>max_retries\<close> times, every failed probe is directly followed by the
  closing return and that connection is closed afterwards, and a connection that is
  returned passed the probe that ends the log and is open.
\<close>

theorem get_valid_connection_bounded:
  "(\<exists>evs. trace (snd (get_valid_connection env n w)) = trace w @ evs \<and>
     count_list evs GetConn \<le> nat n \<and>
     failed_probes_closed evs \<and>
     (\<forall>c. Probe c False \<in> set evs \<longrightarrow>
        c \<in> set (closed_conns (snd (get_valid_connection env n w)))) \<and>
     (\<forall>c. fst (get_valid_connection env n w) = Inr c \<longrightarrow>
        evs \<noteq> [] \<and> last evs = Probe c True \<and>
        c \<notin> set (closed_conns (snd (get_valid_connection env n w)))) \<and>
     (\<forall>e. fst (get_valid_connection env n w) = Inl e \<longrightarrow>
        cls e = RuntimeError \<and>
        msg e = (if 0 < n then ''Failed to get valid connection after '' @ str_int n @ '' attempts''
                 else ''Failed to get valid connection''))) \<and>
   (n \<le> 0 \<longrightarrow>
      get_valid_connection env n w
        = (Inl (Exn RuntimeError ''Failed to get valid connection'' None), w)) \<and>
   (i < nat n \<longrightarrow> (\<forall>j<i. isl (attempt_outcome env j w)) \<longrightarrow> attempt_outcome env i w = Inr c \<longrightarrow>
      get_valid_connection env n w = (Inr c, after_attempts env (Suc i) w)) \<and>
   (0 < n \<longrightarrow> (\<forall>j<nat n. isl (attempt_outcome env j w)) \<longrightarrow>
      get_valid_connection env n w
        = (Inl (Exn RuntimeError
                  (''Failed to get valid connection after '' @ str_int n @ '' attempts'')
                  (Some (projl (attempt_outcome env (nat n - 1) w)))),
           after_attempts env (nat n) w)) \<and>
   (get_connection env u = (Inl e, u1) \<longrightarrow> validation_attempt env u = (Inl e, u1)) \<and>
   (get_connection env u = (Inr c, u1) \<longrightarrow> probe env c u1 = (None, u2) \<longrightarrow>
      validation_attempt env u = (Inr c, u2) \<and> trace u2 = trace u1 @ [Probe c True]) \<and>
   (get_connection env u = (Inr c, u1) \<longrightarrow> probe env c u1 = (Some e, u2) \<longrightarrow>
      fst (validation_attempt env u) = Inl e \<and>
      trace (snd (validation_attempt env u)) = trace u1 @ [Probe c False, PutConn c True] \<and>
      c \<in> set (closed_conns (snd (validation_attempt env u))))"
proof -
  obtain r w' where run: "get_valid_connection_from env n 0 w = (r, w')" by fastforce
  from get_valid_connection_from_log [OF run]
  obtain evs where "validation_log (nat n) w r w' evs" by auto
  moreover have "\<forall>e. r = Inl e \<longrightarrow>
        cls e = RuntimeError \<and>
        msg e = (if 0 < n then ''Failed to get valid connection after '' @ str_int n @ '' attempts''
                 else ''Failed to get valid connection'')"
    using get_valid_connection_from_error [of env n 0 w] run by blast
  ultimately have log: "\<exists>evs. trace (snd (get_valid_connection env n w)) = trace w @ evs \<and>
     count_list evs GetConn \<le> nat n \<and>
     failed_probes_closed evs \<and>
     (\<forall>c. Probe c False \<in> set evs \<longrightarrow>
        c \<in> set (closed_conns (snd (get_valid_connection env n w)))) \<and>
     (\<forall>c. fst (get_valid_connection env n w) = Inr c \<longrightarrow>
        evs \<noteq> [] \<and> last evs = Probe c True \<and>
        c \<notin> set (closed_conns (snd (get_valid_connection env n w)))) \<and>
     (\<forall>e. fst (get_valid_connection env n w) = Inl e \<longrightarrow>
        cls e = RuntimeError \<and>
        msg e = (if 0 < n then ''Failed to get valid connection after '' @ str_int n @ '' attempts''
                 else ''Failed to get valid connection''))"
    unfolding validation_log_def get_valid_connection_def run by (intro exI [of _ evs]) simp
  have none: "get_valid_connection env n w
        = (Inl (Exn RuntimeError ''Failed to get valid connection'' None), w)" if "n \<le> 0"
    using that by (simp add: get_valid_connection_def get_valid_connection_from.simps)
  have first: "get_valid_connection env n w = (Inr c, after_attempts env (Suc i) w)"
    if "i < nat n" "\<forall>j<i. isl (attempt_outcome env j w)" "attempt_outcome env i w = Inr c"
  proof -
    from that(1) have "0 + int i < n" by simp
    from get_valid_connection_from_first_success [OF this that(2,3)]
    show ?thesis by (simp add: get_valid_connection_def)
  qed
  have fail: "get_valid_connection env n w
        = (Inl (Exn RuntimeError
                  (''Failed to get valid connection after '' @ str_int n @ '' attempts'')
                  (Some (projl (attempt_outcome env (nat n - 1) w)))),
           after_attempts env (nat n) w)"
    if "0 < n" "\<forall>j<nat n. isl (attempt_outcome env j w)"
  proof -
    from that(1) have "0 < nat n" "n - 0 = int (nat n)" by simp_all
    from get_valid_connection_from_all_fail [OF this that(2)]
    show ?thesis by (simp add: get_valid_connection_def failed_after_def)
  qed
  note turn = validation_attempt_no_connection [of env u e u1]
    validation_attempt_probe_ok [of env u c u1 u2]
    validation_attempt_probe_failed [of env u c u1 e u2]
  from log none first fail turn show ?thesis by blast
qed


theorem get_valid_connection_bounded_witness:
  "fst (get_valid_connection flaky_env 3 started_world) = Inr 2 \<and>
   last (trace (snd (get_valid_connection flaky_env 3 started_world))) = Probe 2 True \<and>
   count_list (trace (snd (get_valid_connection flaky_env 3 started_world))) GetConn \<le> 3 \<and>
   failed_probes_closed (trace (snd (get_valid_connection flaky_env 3 started_world))) \<and>
   2 \<notin> set (closed_conns (snd (get_valid_connection flaky_env 3 started_world))) \<and>
   fst (get_valid_connection dead_env 3 started_world)
     = Inl (Exn RuntimeError ''Failed to get valid connection after 3 attempts''
              (Some timeout_error)) \<and>
   get_valid_connection steady_env 0 started_world
     = (Inl (Exn RuntimeError ''Failed to get valid connection'' None), started_world) \<and>
   validation_attempt steady_env unstarted_world = (Inl pool_not_initialized, unstarted_world) \<and>
   fst (validation_attempt steady_env started_world) = Inr 1 \<and>
   fst (validation_attempt dead_env started_world) = Inl timeout_error \<and>
   1 \<in> set (closed_conns (snd (validation_attempt dead_env started_world)))"
proof -
  have b: "trace started_world = []" by (simp add: started_world_def)
  have d: "str_int 3 = ''3''" by code_simp
  \<comment> \<open>two turns fail, the third validates connection 2\<close>
  have f0: "isl (attempt_outcome flaky_env 0 started_world)" by code_simp
  have f1: "isl (attempt_outcome flaky_env 1 started_world)" by code_simp
  have f2: "attempt_outcome flaky_env 2 started_world = Inr 2" by code_simp
  from f0 f1 have fall: "\<forall>j<2. isl (attempt_outcome flaky_env j started_world)"
    by (auto simp: less_Suc_eq numeral_2_eq_2)
  have i: "(2::nat) < nat 3" by simp
  from i fall f2 get_valid_connection_bounded [where env = flaky_env and n = 3
      and w = started_world and i = 2 and c = 2]
  have a: "fst (get_valid_connection flaky_env 3 started_world) = Inr 2" by simp
  from a b get_valid_connection_bounded [where env = flaky_env and n = 3 and w = started_world]
  have r1: "last (trace (snd (get_valid_connection flaky_env 3 started_world))) = Probe 2 True"
    and r2: "count_list (trace (snd (get_valid_connection flaky_env 3 started_world))) GetConn \<le> 3"
    and r3: "failed_probes_closed (trace (snd (get_valid_connection flaky_env 3 started_world)))"
    and r4: "2 \<notin> set (closed_conns (snd (get_valid_connection flaky_env 3 started_world)))"
    by auto
  \<comment> \<open>every turn fails\<close>
  have d0: "isl (attempt_outcome dead_env 0 started_world)" by code_simp
  have d1: "isl (attempt_outcome dead_env 1 started_world)" by code_simp
  have d2: "isl (attempt_outcome dead_env 2 started_world)" by code_simp
  from d0 d1 d2 have dall: "\<forall>j<nat 3. isl (attempt_outcome dead_env j started_world)"
    by (auto simp: less_Suc_eq numeral_3_eq_3 numeral_2_eq_2)
  have dl: "projl (attempt_outcome dead_env (nat 3 - 1) started_world) = timeout_error"
    by code_simp
  have p: "(0::int) < 3" by simp
  from p dall dl d get_valid_connection_bounded [where env = dead_env and n = 3
      and w = started_world]
  have r5: "fst (get_valid_connection dead_env 3 started_world)
     = Inl (Exn RuntimeError ''Failed to get valid connection after 3 attempts''
              (Some timeout_error))"
    by simp
  \<comment> \<open>no turn allowed\<close>
  have z: "(0::int) \<le> 0" by simp
  from z get_valid_connection_bounded [where env = steady_env and n = 0 and w = started_world]
  have r6: "get_valid_connection steady_env 0 started_world
     = (Inl (Exn RuntimeError ''Failed to get valid connection'' None), started_world)"
    by blast
  \<comment> \<open>single turns\<close>
  have g0: "get_connection steady_env unstarted_world = (Inl pool_not_initialized, unstarted_world)"
    by (simp add: get_connection_def unstarted_world_def)
  from g0 get_valid_connection_bounded [where env = steady_env and u = unstarted_world
      and e = pool_not_initialized and ?u1.0 = unstarted_world]
  have r7: "validation_attempt steady_env unstarted_world
      = (Inl pool_not_initialized, unstarted_world)"
    by blast
  let ?s1 = "snd (get_connection steady_env started_world)"
  let ?s2 = "snd (probe steady_env 1 ?s1)"
  have "fst (get_connection steady_env started_world) = Inr 1" by code_simp
  then have g1: "get_connection steady_env started_world = (Inr 1, ?s1)"
    by (metis prod.collapse)
  have "fst (probe steady_env 1 ?s1) = None" by code_simp
  then have p1: "probe steady_env 1 ?s1 = (None, ?s2)"
    by (metis prod.collapse)
  from g1 p1 get_valid_connection_bounded [where env = steady_env and u = started_world
      and c = 1 and ?u1.0 = ?s1 and ?u2.0 = ?s2]
  have r8: "fst (validation_attempt steady_env started_world) = Inr 1"
    by simp
  let ?d1 = "snd (get_connection dead_env started_world)"
  let ?d2 = "snd (probe dead_env 1 ?d1)"
  have "fst (get_connection dead_env started_world) = Inr 1" by code_simp
  then have g2: "get_connection dead_env started_world = (Inr 1, ?d1)"
    by (metis prod.collapse)
  have "fst (probe dead_env 1 ?d1) = Some timeout_error" by code_simp
  then have p2: "probe dead_env 1 ?d1 = (Some timeout_error, ?d2)"
    by (metis prod.collapse)
  from g2 p2 get_valid_connection_bounded [where env = dead_env and u = started_world
      and c = 1 and ?u1.0 = ?d1 and e = timeout_error and ?u2.0 = ?d2]
  have r9: "fst (validation_attempt dead_env started_world) = Inl timeout_error"
    and r10: "1 \<in> set (closed_conns (snd (validation_attempt dead_env started_world)))"
    by simp_all
  from a r1 r2 r3 r4 r5 r6 r7 r8 r9 r10 show ?thesis by simp
qed

section \<open>Properties of the repository and search operations\<close>

text \<open>
  What a caller of the validation holds afterwards: nothing more is checked out after a
  failure; after a success the connection is checked out of an open pool.
\<close>

lemma validation_attempt_pool:
  assumes "validation_attempt env w = (r, w')"
  shows "neron w' = neron w \<and>
     (case r of
        Inl e \<Rightarrow> mset (checked_out w') = mset (checked_out w)
      | Inr c \<Rightarrow> (\<exists>p. connection_pool w' = Some p \<and> \<not> closed p \<and> c \<in> set (used p) \<and>
                   mset (used p) = add_mset c (mset (checked_out w))))"
  using assms
  by (auto simp: validation_attempt_def get_connection_def pool_getconn_def probe_def
      return_connection_def pool_putconn_def log_event_def Let_def checked_out_def
      split: option.splits if_splits sum.splits prod.splits)

lemma get_valid_connection_from_pool:
  "get_valid_connection_from env n a w = (r, w') \<Longrightarrow>
     neron w' = neron w \<and>
     (case r of
        Inl e \<Rightarrow> mset (checked_out w') = mset (checked_out w)
      | Inr c \<Rightarrow> (\<exists>p. connection_pool w' = Some p \<and> \<not> closed p \<and> c \<in> set (used p) \<and>
                   mset (used p) = add_mset c (mset (checked_out w))))"
proof (induction env n a w arbitrary: r w' rule: get_valid_connection_from.induct)
  case (1 env n a w)
  show ?case
  proof (cases "a < n")
    case False
    with "1.prems" show ?thesis
      by (auto simp: get_valid_connection_from.simps)
  next
    case True
    obtain r1 w1 where va: "validation_attempt env w = (r1, w1)" by fastforce
    note p1 = validation_attempt_pool [OF va]
    show ?thesis
    proof (cases r1)
      case (Inr c)
      with "1.prems" True va have "r = r1" "w' = w1"
        by (auto simp: get_valid_connection_from.simps)
      with p1 show ?thesis by auto
    next
      case (Inl e)
      show ?thesis
      proof (cases "a = n - 1")
        case last: True
        with "1.prems" True va Inl have "r = Inl (failed_after n e)" "w' = w1"
          by (auto simp: get_valid_connection_from.simps)
        with p1 Inl show ?thesis by auto
      next
        case more: False
        with "1.prems" True va Inl have "get_valid_connection_from env n (a + 1) w1 = (r, w')"
          by (simp add: get_valid_connection_from.simps)
        from "1.IH" [OF True va [symmetric] Inl more this] p1 Inl
        show ?thesis by (cases r) (auto simp: checked_out_def)
      qed
    qed
  qed
qed

lemma get_valid_connection_holds:
  assumes "get_valid_connection env n w = (Inr c, w1)"
  obtains p where "connection_pool w1 = Some p" "\<not> closed p" "c \<in> set (used p)"
    "mset (used p) = add_mset c (mset (checked_out w))" "neron w1 = neron w"
  using get_valid_connection_from_pool [of env n 0 w "Inr c" w1] assms
  by (auto simp: get_valid_connection_def)


text \<open>
  The statement and the return of the connection, entered with a connection checked out
  of an open pool. The return is always asked for; it fails only when the pool's rollback
  does, which needs \<open>close=False\<close>.
\<close>

lemma execute_then_return:
  assumes pool: "connection_pool w1 = Some p" "\<not> closed p" "c \<in> set (used p)"
    and ex: "execute env c q w1 = (x, w2)"
    and ret: "return_connection env c (x \<noteq> None) w2 = (y, w3)"
  shows "neron w2 = neron w1"
    and "trace w3 = trace w1 @ [Execute c q, PutConn c (x \<noteq> None)]"
    and "x \<noteq> None \<Longrightarrow> y = None \<and> c \<in> set (closed_conns w3)"
    and "y = None \<Longrightarrow> mset (checked_out w3) = mset (used p) - {#c#}"
    and "y \<noteq> None \<Longrightarrow> checked_out w3 = used p"
  using assms
  by (auto simp: execute_def return_connection_def pool_putconn_def
      log_event_def Let_def checked_out_def
      split: option.splits if_splits prod.splits txn_status.splits)

lemma finally_return_outcome:
  "return_connection env c close_conn w = (y, w') \<Longrightarrow>
     finally_return env c close_conn pending w
       = ((case y of None \<Rightarrow> pending | Some e \<Rightarrow> Inl e), w')"
  by (simp add: finally_return_def split: option.splits)


lemma acquired_then_returned:
  assumes gv: "get_valid_connection env n w = (Inr c, w1)"
    and ex: "execute env c q w1 = (x, w2)"
    and ret: "return_connection env c (x \<noteq> None) w2 = (y, w3)"
  shows "finally_return env c (x \<noteq> None) pending w2
           = ((case y of None \<Rightarrow> pending | Some e \<Rightarrow> Inl e), w3)"
    and "neron w2 = neron w"
    and "trace w3 = trace w1 @ [Execute c q, PutConn c (x \<noteq> None)]"
    and "x \<noteq> None \<Longrightarrow> y = None \<and> c \<in> set (closed_conns w3)"
    and "y = None \<Longrightarrow> mset (checked_out w3) = mset (checked_out w)"
    and "y \<noteq> None \<Longrightarrow> mset (checked_out w3) = add_mset c (mset (checked_out w))"
proof -
  from gv obtain p where p: "connection_pool w1 = Some p" "\<not> closed p" "c \<in> set (used p)"
    "mset (used p) = add_mset c (mset (checked_out w))" "neron w1 = neron w"
    by (rule get_valid_connection_holds)
  note rel = execute_then_return [OF p(1-3) ex ret]
  show "finally_return env c (x \<noteq> None) pending w2
           = ((case y of None \<Rightarrow> pending | Some e \<Rightarrow> Inl e), w3)"
    by (rule finally_return_outcome [OF ret])
  show "neron w2 = neron w" using rel(1) p(5) by simp
  show "trace w3 = trace w1 @ [Execute c q, PutConn c (x \<noteq> None)]" by (rule rel(2))
  show "x \<noteq> None \<Longrightarrow> y = None \<and> c \<in> set (closed_conns w3)" by (rule rel(3))
  show "y = None \<Longrightarrow> mset (checked_out w3) = mset (checked_out w)"
    using rel(4) p(4) by simp
  show "y \<noteq> None \<Longrightarrow> mset (checked_out w3) = add_mset c (mset (checked_out w))"
    using rel(5) p(4) by simp
qed

lemma get_notes_by_day_acquired:
  "get_valid_connection env 3 w = (Inr c, w1) \<Longrightarrow> execute env c (NotesByDay d) w1 = (x, w2) \<Longrightarrow>
     get_notes_by_day env d w =
       finally_return env c (x \<noteq> None)
         (case x of None \<Rightarrow> Inr (select_by_day (neron w2) d) | Some e \<Rightarrow> Inl e) w2"
  by (simp add: get_notes_by_day_def split: option.splits)

lemma get_all_notes_acquired:
  "get_valid_connection env 3 w = (Inr c, w1) \<Longrightarrow> execute env c AllNotes w1 = (x, w2) \<Longrightarrow>
     get_all_notes env w =
       finally_return env c (x \<noteq> None)
         (case x of None \<Rightarrow> Inr (select_all_desc (neron w2)) | Some e \<Rightarrow> Inl e) w2"
  by (simp add: get_all_notes_def split: option.splits)



text \<open>
  What each operation comes to once a validated connection is held: \<open>x\<close> is the outcome
  of the statement, \<open>y\<close> that of the return of the connection.
\<close>

lemma get_notes_by_day_run:
  assumes "get_valid_connection env 3 w = (Inr c, w1)"
    and "execute env c (NotesByDay d) w1 = (x, w2)"
    and "return_connection env c (x \<noteq> None) w2 = (y, w3)"
  shows "get_notes_by_day env d w
           = ((case y of Some e \<Rightarrow> Inl e
               | None \<Rightarrow> (case x of None \<Rightarrow> Inr (select_by_day (neron w) d)
                          | Some e \<Rightarrow> Inl e)), w3)"
  using acquired_then_returned(1) [OF assms,
      of "case x of None \<Rightarrow> Inr (select_by_day (neron w2) d) | Some e \<Rightarrow> Inl e"]
    acquired_then_returned(2) [OF assms]
    get_notes_by_day_acquired [OF assms(1,2)]
  by (auto split: option.splits)

lemma get_all_notes_run:
  assumes "get_valid_connection env 3 w = (Inr c, w1)"
    and "execute env c AllNotes w1 = (x, w2)"
    and "return_connection env c (x \<noteq> None) w2 = (y, w3)"
  shows "get_all_notes env w
           = ((case y of Some e \<Rightarrow> Inl e
               | None \<Rightarrow> (case x of None \<Rightarrow> Inr (select_all_desc (neron w))
                          | Some e \<Rightarrow> Inl e)), w3)"
  using acquired_then_returned(1) [OF assms,
      of "case x of None \<Rightarrow> Inr (select_all_desc (neron w2)) | Some e \<Rightarrow> Inl e"]
    acquired_then_returned(2) [OF assms]
    get_all_notes_acquired [OF assms(1,2)]
  by (auto split: option.splits)








section \<open>Properties of the two statements\<close>

lemma row_timestamp_of_note: "row_timestamp (row_of n) = note_timestamp n"
  by (simp add: row_timestamp_def row_of_def)

lemma row_timestamp_row_of: "map row_timestamp (map row_of ns) = map note_timestamp ns"
  by (simp add: row_timestamp_of_note)

lemma select_by_day_mset:
  "mset (select_by_day tbl d)
     = image_mset row_of (filter_mset (\<lambda>n. fst (note_timestamp n) = d) (mset tbl))"
  by (simp add: select_by_day_def)

lemma select_by_day_sorted: "sorted (map row_timestamp (select_by_day tbl d))"
  unfolding select_by_day_def row_timestamp_row_of by (rule sorted_sort_key)

lemma select_by_day_empty:
  "select_by_day tbl d = [] \<longleftrightarrow> (\<forall>n \<in> set tbl. fst (note_timestamp n) \<noteq> d)"
proof -
  have "select_by_day tbl d = [] \<longleftrightarrow> length (select_by_day tbl d) = 0" by simp
  also have "\<dots> \<longleftrightarrow> filter (\<lambda>n. fst (note_timestamp n) = d) tbl = []"
    by (simp add: select_by_day_def)
  also have "\<dots> \<longleftrightarrow> (\<forall>n \<in> set tbl. fst (note_timestamp n) \<noteq> d)"
    by (simp add: filter_empty_conv)
  finally show ?thesis .
qed

lemma select_all_desc_mset: "mset (select_all_desc tbl) = image_mset row_of (mset tbl)"
  by (simp add: select_all_desc_def)

lemma select_all_desc_sorted:
  "sorted_wrt (\<lambda>a b. b \<le> a) (map row_timestamp (select_all_desc tbl))"
proof -
  have "map row_timestamp (select_all_desc tbl)
      = rev (map note_timestamp (sort_key note_timestamp (rev tbl)))"
    by (simp add: select_all_desc_def row_timestamp_of_note rev_map)
  then show ?thesis by (simp add: sorted_wrt_rev)
qed

lemma select_all_desc_empty: "select_all_desc tbl = [] \<longleftrightarrow> tbl = []"
proof -
  have "select_all_desc tbl = [] \<longleftrightarrow> length (select_all_desc tbl) = 0" by simp
  also have "\<dots> \<longleftrightarrow> tbl = []" by (simp add: select_all_desc_def)
  finally show ?thesis .
qed

lemma get_notes_by_day_rows:
  assumes "fst (get_notes_by_day env d w) = Inr rows"
  shows "rows = select_by_day (neron w) d"
proof -
  obtain r1 w1 where gv: "get_valid_connection env 3 w = (r1, w1)" by fastforce
  show ?thesis
  proof (cases r1)
    case (Inl e)
    with gv assms show ?thesis by (simp add: get_notes_by_day_def)
  next
    case (Inr c)
    obtain x w2 where ex: "execute env c (NotesByDay d) w1 = (x, w2)" by fastforce
    obtain y w3 where ret: "return_connection env c (x \<noteq> None) w2 = (y, w3)" by fastforce
    from get_notes_by_day_run [OF gv [unfolded Inr] ex ret] assms show ?thesis
      by (cases x; cases y) simp_all
  qed
qed

lemma get_all_notes_rows:
  assumes "fst (get_all_notes env w) = Inr rows"
  shows "rows = select_all_desc (neron w)"
proof -
  obtain r1 w1 where gv: "get_valid_connection env 3 w = (r1, w1)" by fastforce
  show ?thesis
  proof (cases r1)
    case (Inl e)
    with gv assms show ?thesis by (simp add: get_all_notes_def)
  next
    case (Inr c)
    obtain x w2 where ex: "execute env c AllNotes w1 = (x, w2)" by fastforce
    obtain y w3 where ret: "return_connection env c (x \<noteq> None) w2 = (y, w3)" by fastforce
    from get_all_notes_run [OF gv [unfolded Inr] ex ret] assms show ?thesis
      by (cases x; cases y) simp_all
  qed
qed

text \<open>
  C7. Whenever \<open>get_notes_by_day\<close> returns rows, they are exactly the rows of the notes
  whose timestamp has the given date (as a multiset: each such note once), in ascending
  order of timestamp; whenever \<open>get_all_notes\<close> returns rows, they are the rows of all
  notes, in descending order of timestamp. When a validated connection was acquired, the
  statement ran and the connection was returned, the operation returns rows, and the empty
  list exactly when no note matches (when the table is empty): an empty answer is not a
  failure.
\<close>

theorem notes_selected_and_ordered:
  "(\<forall>rows. fst (get_notes_by_day env d w) = Inr rows \<longrightarrow>
      mset rows
        = image_mset row_of (filter_mset (\<lambda>n. fst (note_timestamp n) = d) (mset (neron w))) \<and>
      sorted (map row_timestamp rows)) \<and>
   (\<forall>rows. fst (get_all_notes env w) = Inr rows \<longrightarrow>
      mset rows = image_mset row_of (mset (neron w)) \<and>
      sorted_wrt (\<lambda>a b. b \<le> a) (map row_timestamp rows)) \<and>
   (get_valid_connection env 3 w = (Inr c, w1) \<longrightarrow>
    execute env c (NotesByDay d) w1 = (None, w2) \<longrightarrow>
    return_connection env c False w2 = (None, w3) \<longrightarrow>
      (\<exists>rows. fst (get_notes_by_day env d w) = Inr rows \<and>
         (rows = [] \<longleftrightarrow> (\<forall>n \<in> set (neron w). fst (note_timestamp n) \<noteq> d)))) \<and>
   (get_valid_connection env 3 w = (Inr c, w1) \<longrightarrow>
    execute env c AllNotes w1 = (None, w2) \<longrightarrow>
    return_connection env c False w2 = (None, w3) \<longrightarrow>
      (\<exists>rows. fst (get_all_notes env w) = Inr rows \<and> (rows = [] \<longleftrightarrow> neron w = [])))"
proof (intro conjI impI allI)
  fix rows assume "fst (get_notes_by_day env d w) = Inr rows"
  then have "rows = select_by_day (neron w) d" by (rule get_notes_by_day_rows)
  then show "mset rows
        = image_mset row_of (filter_mset (\<lambda>n. fst (note_timestamp n) = d) (mset (neron w)))"
    and "sorted (map row_timestamp rows)"
    by (simp_all only: select_by_day_mset select_by_day_sorted)
next
  fix rows assume "fst (get_all_notes env w) = Inr rows"
  then have "rows = select_all_desc (neron w)" by (rule get_all_notes_rows)
  then show "mset rows = image_mset row_of (mset (neron w))"
    and "sorted_wrt (\<lambda>a b. b \<le> a) (map row_timestamp rows)"
    by (simp_all only: select_all_desc_mset select_all_desc_sorted)
next
  assume "get_valid_connection env 3 w = (Inr c, w1)"
    and "execute env c (NotesByDay d) w1 = (None, w2)"
    and "return_connection env c False w2 = (None, w3)"
  then have "fst (get_notes_by_day env d w) = Inr (select_by_day (neron w) d)"
    using get_notes_by_day_run [of env w c w1 d None w2 None w3] by simp
  then show "\<exists>rows. fst (get_notes_by_day env d w) = Inr rows \<and>
         (rows = [] \<longleftrightarrow> (\<forall>n \<in> set (neron w). fst (note_timestamp n) \<noteq> d))"
    using select_by_day_empty by blast
next
  assume "get_valid_connection env 3 w = (Inr c, w1)"
    and "execute env c AllNotes w1 = (None, w2)"
    and "return_connection env c False w2 = (None, w3)"
  then have "fst (get_all_notes env w) = Inr (select_all_desc (neron w))"
    using get_all_notes_run [of env w c w1 None w2 None w3] by simp
  then show "\<exists>rows. fst (get_all_notes env w) = Inr rows \<and> (rows = [] \<longleftrightarrow> neron w = [])"
    using select_all_desc_empty by blast
qed

theorem notes_selected_and_ordered_witness:
  "fst (get_notes_by_day steady_env (2024, 1, 15) started_world)
     = Inr [(3, ((2024, 1, 15), (8, 5, 0, 0)), ''morning''),
            (1, ((2024, 1, 15), (18, 30, 0, 0)), ''evening'')] \<and>
   sorted (map row_timestamp
     [(3, ((2024, 1, 15), (8, 5, 0, 0)), ''morning''),
      (1, ((2024, 1, 15), (18, 30, 0, 0)), ''evening'')]) \<and>
   fst (get_all_notes steady_env started_world)
     = Inr [(1, ((2024, 1, 15), (18, 30, 0, 0)), ''evening''),
            (3, ((2024, 1, 15), (8, 5, 0, 0)), ''morning''),
            (2, ((2024, 1, 14), (9, 0, 0, 0)), ''day before'')] \<and>
   sorted_wrt (\<lambda>a b. b \<le> a) (map row_timestamp
     [(1, ((2024, 1, 15), (18, 30, 0, 0)), ''evening''),
      (3, ((2024, 1, 15), (8, 5, 0, 0)), ''morning''),
      (2, ((2024, 1, 14), (9, 0, 0, 0)), ''day before'')]) \<and>
   fst (get_notes_by_day steady_env (2023, 1, 1) started_world) = Inr [] \<and>
   fst (get_all_notes steady_env (started_world\<lparr>neron := []\<rparr>)) = Inr []"
proof -
  let ?d = "(2024, 1, 15) :: date"
  let ?d' = "(2023, 1, 1) :: date"
  let ?day = "[(3, ((2024, 1, 15), (8, 5, 0, 0)), ''morning''),
      (1, ((2024, 1, 15), (18, 30, 0, 0)), ''evening'')] :: note_row list"
  let ?all = "[(1, ((2024, 1, 15), (18, 30, 0, 0)), ''evening''),
      (3, ((2024, 1, 15), (8, 5, 0, 0)), ''morning''),
      (2, ((2024, 1, 14), (9, 0, 0, 0)), ''day before'')] :: note_row list"
  let ?e = "started_world\<lparr>neron := []\<rparr>"
  let ?w1 = "snd (get_valid_connection steady_env 3 started_world)"
  let ?w2 = "snd (execute steady_env 1 (NotesByDay ?d') ?w1)"
  let ?w3 = "snd (return_connection steady_env 1 False ?w2)"
  let ?e1 = "snd (get_valid_connection steady_env 3 ?e)"
  let ?e2 = "snd (execute steady_env 1 AllNotes ?e1)"
  let ?e3 = "snd (return_connection steady_env 1 False ?e2)"
  have a: "fst (get_notes_by_day steady_env ?d started_world) = Inr ?day" by code_simp
  have b: "fst (get_all_notes steady_env started_world) = Inr ?all" by code_simp
  have "fst (get_valid_connection steady_env 3 started_world) = Inr 1" by code_simp
  then have gv: "get_valid_connection steady_env 3 started_world = (Inr 1, ?w1)"
    by (metis prod.collapse)
  have "fst (execute steady_env 1 (NotesByDay ?d') ?w1) = None" by code_simp
  then have ex: "execute steady_env 1 (NotesByDay ?d') ?w1 = (None, ?w2)"
    by (metis prod.collapse)
  have "fst (return_connection steady_env 1 False ?w2) = None" by code_simp
  then have ret: "return_connection steady_env 1 False ?w2 = (None, ?w3)"
    by (metis prod.collapse)
  have none: "\<forall>n \<in> set (neron started_world). fst (note_timestamp n) \<noteq> ?d'"
    by (simp add: started_world_def example_notes_def)
  have "fst (get_valid_connection steady_env 3 ?e) = Inr 1" by code_simp
  then have gv': "get_valid_connection steady_env 3 ?e = (Inr 1, ?e1)"
    by (metis prod.collapse)
  have "fst (execute steady_env 1 AllNotes ?e1) = None" by code_simp
  then have ex': "execute steady_env 1 AllNotes ?e1 = (None, ?e2)"
    by (metis prod.collapse)
  have "fst (return_connection steady_env 1 False ?e2) = None" by code_simp
  then have ret': "return_connection steady_env 1 False ?e2 = (None, ?e3)"
    by (metis prod.collapse)
  have empty: "neron ?e = []" by simp
  from a notes_selected_and_ordered [where env = steady_env and d = ?d and w = started_world]
  have r1: "sorted (map row_timestamp ?day)" by blast
  from b notes_selected_and_ordered [where env = steady_env and w = started_world]
  have r2: "sorted_wrt (\<lambda>a b. b \<le> a) (map row_timestamp ?all)" by blast
  from gv ex ret none notes_selected_and_ordered [where env = steady_env and d = ?d'
      and w = started_world and c = 1 and ?w1.0 = ?w1 and ?w2.0 = ?w2 and ?w3.0 = ?w3]
  have r3: "fst (get_notes_by_day steady_env ?d' started_world) = Inr []" by blast
  from gv' ex' ret' empty notes_selected_and_ordered [where env = steady_env
      and w = ?e and c = 1 and ?w1.0 = ?e1 and ?w2.0 = ?e2 and ?w3.0 = ?e3]
  have r4: "fst (get_all_notes steady_env ?e) = Inr []" by blast
  from a b r1 r2 r3 r4 show ?thesis by simp
qed

section \<open>Properties of the validation of top\_k\<close>






end
